theory Spec2Isabelle
  imports Main
begin

section \<open>Data model\<close>

text \<open>
  The skill commands of \<^verbatim>\<open>src/agent/cli/skill_commands.py\<close> work on the settings
  document (\<^verbatim>\<open>settings.skills.bundled_dir\<close>, \<^verbatim>\<open>settings.skills.disabled_bundled\<close>,
  \<^verbatim>\<open>settings.skills.plugins\<close>) and on the entries returned by the skill manager.
  Paths and names are strings.
\<close>

type_synonym path = string

text \<open>
  Exceptions are values. \<open>TyperExit\<close> is \<^verbatim>\<open>typer.Exit(code)\<close>; the other constructors
  are the error taxonomy of the specification, raised by collaborators.
\<close>

datatype exn =
    TyperExit nat
  | ConfigurationError
  | InvalidSkillName
  | SkillNotFoundError
  | AmbiguousNameOverride
  | OSError
  | ValueError

text \<open>\<^verbatim>\<open>PluginSkillSource\<close>: the fields the commands read and write.\<close>

record plugin_skill_source =
  name :: string
  git_url :: string
  branch :: string
  enabled :: bool
  installed_path :: string

text \<open>An entry returned by \<^verbatim>\<open>SkillManager.install\<close>: the fields the commands read.\<close>

record installed_entry =
  entry_name :: string
  name_canonical :: string
  entry_installed_path :: string

record skills_config =
  bundled_dir :: "path option"
  disabled_bundled :: "string list"
  plugins :: "plugin_skill_source list"

text \<open>
  The settings document. \<open>providers_enabled\<close> is \<^verbatim>\<open>settings.providers.enabled\<close>;
  \<open>other_fields\<close> holds every other table of the document and every field the schema
  does not know, as key/value pairs.
\<close>

record agent_settings =
  providers_enabled :: "string list"
  skills :: skills_config
  other_fields :: "(string \<times> string) list"

section \<open>NameCanonicalizer\<close>

text \<open>
  \<^verbatim>\<open>normalize_skill_name\<close> of \<^verbatim>\<open>agent.skills.security\<close> is not among the sources. The
  definitions of this section follow section 4.1 of the specification: lowercase;
  collapse whitespace and underscores to a single separator (a hyphen); strip the
  characters unsafe for a path segment; trim to a bounded maximum length; an input that
  cannot be reduced to a non-empty safe token fails with \<open>InvalidSkillName\<close>.
\<close>

text \<open>Modelled from the spec: the lowercasing step of \<^verbatim>\<open>normalize_skill_name\<close>, on ASCII letters.\<close>

definition lower_char :: "char \<Rightarrow> char" where
  "lower_char c =
     (case map_of (zip ''ABCDEFGHIJKLMNOPQRSTUVWXYZ'' ''abcdefghijklmnopqrstuvwxyz'') c of
        None \<Rightarrow> c
      | Some l \<Rightarrow> l)"

text \<open>
  Modelled from the spec: the characters that \<^verbatim>\<open>normalize_skill_name\<close> collapses to a
  separator, that is the underscore and ASCII whitespace.
\<close>

definition is_separator :: "char \<Rightarrow> bool" where
  "is_separator c \<longleftrightarrow>
     c \<in> set [CHR '' '', CHR ''_'', CHR 0x09, CHR 0x0A, CHR 0x0B, CHR 0x0C, CHR 0x0D]"

text \<open>
  Modelled from the spec: the characters that \<^verbatim>\<open>normalize_skill_name\<close> keeps as safe in a
  path segment, that is lowercase letters, digits and the separator.
\<close>

definition safe_char :: "char \<Rightarrow> bool" where
  "safe_char c \<longleftrightarrow> c \<in> set ''abcdefghijklmnopqrstuvwxyz0123456789-''"

text \<open>
  Modelled from the spec: the collapsing step of \<^verbatim>\<open>normalize_skill_name\<close>; each run of
  separator characters becomes one hyphen. The flag says whether the previous character
  belonged to a run.
\<close>

fun collapse_separators :: "bool \<Rightarrow> string \<Rightarrow> string" where
  "collapse_separators in_run [] = []"
| "collapse_separators in_run (c # cs) =
     (if is_separator c
      then (if in_run then collapse_separators True cs
            else CHR ''-'' # collapse_separators True cs)
      else c # collapse_separators False cs)"

text \<open>
  Modelled from the spec: \<^verbatim>\<open>normalize_skill_name\<close> (the specification's \<^verbatim>\<open>canonicalize\<close>), the
  four steps in the order the specification lists them. The specification gives no
  number for the maximum length; it is the parameter \<open>max_len\<close>.
\<close>

definition canonicalize :: "nat \<Rightarrow> string \<Rightarrow> exn + string" where
  "canonicalize max_len raw =
     (let token = take max_len
                    (filter safe_char (collapse_separators False (map lower_char raw)))
      in if token = [] then Inl InvalidSkillName else Inr token)"

section \<open>ConfigStore\<close>

text \<open>
  \<^verbatim>\<open>load_config\<close>, \<^verbatim>\<open>save_config\<close>, \<^verbatim>\<open>get_default_config\<close> and \<^verbatim>\<open>get_config_path\<close> of
  \<^verbatim>\<open>agent.config\<close> are not among the sources. The definitions of this section follow
  sections 4.3 and 6 of the specification.
\<close>

text \<open>
  Modelled from the spec: what the settings file at a path holds, as \<^verbatim>\<open>load_config\<close>
  sees it: no file, a malformed document, or a settings document.
\<close>

datatype stored = Missing | Malformed | Document agent_settings

type_synonym config_files = "path \<Rightarrow> stored"

text \<open>
  Modelled from the spec: \<^verbatim>\<open>get_default_config\<close>, the compiled-in defaults with zero
  enabled providers; no bundled directory configured, nothing disabled, no plugin.
\<close>

definition get_default_config :: agent_settings where
  "get_default_config =
     \<lparr>providers_enabled = [],
      skills = \<lparr>bundled_dir = None, disabled_bundled = [], plugins = []\<rparr>,
      other_fields = []\<rparr>"

text \<open>
  Modelled from the spec: \<^verbatim>\<open>load_config\<close>; a missing file yields the compiled-in defaults,
  a malformed document fails with \<open>ConfigurationError\<close>.
\<close>

definition load_config :: "config_files \<Rightarrow> path \<Rightarrow> exn + agent_settings" where
  "load_config fs p =
     (case fs p of
        Missing \<Rightarrow> Inr get_default_config
      | Malformed \<Rightarrow> Inl ConfigurationError
      | Document settings \<Rightarrow> Inr settings)"

text \<open>Modelled from the spec: the temporary file that \<^verbatim>\<open>save_config\<close> writes first.\<close>

definition temp_path :: "path \<Rightarrow> path" where
  "temp_path p = p @ ''.tmp''"

text \<open>
  Modelled from the spec: \<^verbatim>\<open>save_config\<close>; the full document, unknown fields included, is
  written to the temporary path, which is then renamed to the target.
\<close>

definition save_config :: "agent_settings \<Rightarrow> path \<Rightarrow> config_files \<Rightarrow> config_files" where
  "save_config settings p fs =
     (let written = fs(temp_path p := Document settings)
      in (written(p := written (temp_path p)))(temp_path p := Missing))"

text \<open>
  Modelled from the spec: \<^verbatim>\<open>get_config_path\<close>, the well-known per-user path, written as
  the docstrings of \<^verbatim>\<open>config/editor.py\<close> write it.
\<close>

definition get_config_path :: path where
  "get_config_path = ''~/.agent/settings.json''"

section \<open>Lookups by canonical name\<close>

text \<open>
  \<^verbatim>\<open>next((p for p in settings.skills.plugins if normalize_skill_name(p.name) == canonical_name), None)\<close>:
  the generator normalises the names in list order and stops at the first match; an
  exception of \<^verbatim>\<open>normalize_skill_name\<close> on the way propagates. The result is the position
  of the plugin found, which stands for the reference to the object in the list.
\<close>

fun find_plugin ::
  "(string \<Rightarrow> exn + string) \<Rightarrow> string \<Rightarrow> plugin_skill_source list \<Rightarrow> exn + nat option"
where
  "find_plugin norm canonical_name [] = Inr None"
| "find_plugin norm canonical_name (p # ps) =
     (case norm (name p) of
        Inl e \<Rightarrow> Inl e
      | Inr n \<Rightarrow>
          if n = canonical_name then Inr (Some 0)
          else (case find_plugin norm canonical_name ps of
                  Inl e \<Rightarrow> Inl e
                | Inr None \<Rightarrow> Inr None
                | Inr (Some i) \<Rightarrow> Inr (Some (Suc i))))"

text \<open>\<^verbatim>\<open>[normalize_skill_name(s) for s in xs]\<close>: all names are normalised, in order.\<close>

fun normalize_all :: "(string \<Rightarrow> exn + string) \<Rightarrow> string list \<Rightarrow> exn + string list" where
  "normalize_all norm [] = Inr []"
| "normalize_all norm (s # ss) =
     (case norm s of
        Inl e \<Rightarrow> Inl e
      | Inr n \<Rightarrow>
          (case normalize_all norm ss of
             Inl e \<Rightarrow> Inl e
           | Inr ns \<Rightarrow> Inr (n # ns)))"

text \<open>
  \<^verbatim>\<open>[x for x in xs if normalize_skill_name(key(x)) != canonical_name]\<close>, used on the
  plugin list (key \<^verbatim>\<open>p.name\<close>) and on \<^verbatim>\<open>disabled_bundled\<close> (key the string itself).
\<close>

fun drop_canonical ::
  "(string \<Rightarrow> exn + string) \<Rightarrow> string \<Rightarrow> ('a \<Rightarrow> string) \<Rightarrow> 'a list \<Rightarrow> exn + 'a list"
where
  "drop_canonical norm canonical_name key [] = Inr []"
| "drop_canonical norm canonical_name key (x # xs) =
     (case norm (key x) of
        Inl e \<Rightarrow> Inl e
      | Inr n \<Rightarrow>
          (case drop_canonical norm canonical_name key xs of
             Inl e \<Rightarrow> Inl e
           | Inr rest \<Rightarrow> Inr (if n \<noteq> canonical_name then x # rest else rest)))"

section \<open>Collaborators and the state the commands act on\<close>

text \<open>
  The commands call code that is not among the sources: \<^verbatim>\<open>normalize_skill_name\<close>, the
  three operations of \<^verbatim>\<open>SkillManager\<close>, \<^verbatim>\<open>Path.exists\<close>,
  \<^verbatim>\<open>SkillLoader.scan_skill_directory\<close>, the auto-detected directory
  \<^verbatim>\<open>repo_root / "skills" / "core"\<close> and, from \<^verbatim>\<open>pathlib\<close>,
  \<^verbatim>\<open>str(skill_dir.relative_to(bundled_path.parent))\<close>, which raises \<^verbatim>\<open>ValueError\<close> for a
  skill directory outside that parent (\<open>relative_location skill_dir bundled_path\<close>).
  They are parameters. A manager operation takes the
  managed directories \<open>'d\<close> and returns its result, or the exception it raises, together
  with the directories it leaves behind. What a command prints is not modelled, except
  for the listing of \<^verbatim>\<open>list_skills\<close>; a command returns nothing or raises.
\<close>

record 'd collaborators =
  normalize_skill_name :: "string \<Rightarrow> exn + string"
  manager_install ::
    "string \<Rightarrow> string option \<Rightarrow> string \<Rightarrow> bool \<Rightarrow> 'd \<Rightarrow> (exn + installed_entry list) \<times> 'd"
  manager_update :: "string \<Rightarrow> 'd \<Rightarrow> (exn + path) \<times> 'd"
  manager_remove :: "string \<Rightarrow> 'd \<Rightarrow> (exn + unit) \<times> 'd"
  path_exists :: "'d \<Rightarrow> path \<Rightarrow> bool"
  scan_skill_directory :: "'d \<Rightarrow> path \<Rightarrow> path list"
  auto_bundled_dir :: path
  relative_location :: "path \<Rightarrow> path \<Rightarrow> exn + string"

record 'd world =
  files :: config_files
  disk :: 'd

text \<open>
  Every command body is wrapped in \<^verbatim>\<open>try: ... except Exception as e: ...; raise typer.Exit(1)\<close>.
  \<^verbatim>\<open>typer.Exit\<close> is itself an \<^verbatim>\<open>Exception\<close>, so whatever the body raises, the command
  leaves with \<^verbatim>\<open>typer.Exit(1)\<close>; what the body did to the state before raising stays.
\<close>

definition handle_errors :: "(exn + 'a) \<times> 'w \<Rightarrow> (exn + 'a) \<times> 'w" where
  "handle_errors r =
     (case r of
        (Inl e, w) \<Rightarrow> (Inl (TyperExit 1), w)
      | (Inr v, w) \<Rightarrow> (Inr v, w))"

text \<open>
  The settings object after \<^verbatim>\<open>settings.skills.plugins\<close>, or
  \<^verbatim>\<open>settings.skills.disabled_bundled\<close>, has been changed in memory, and the state after
  \<^verbatim>\<open>save_config(settings)\<close>.
\<close>

definition with_plugins :: "agent_settings \<Rightarrow> plugin_skill_source list \<Rightarrow> agent_settings" where
  "with_plugins settings ps = settings\<lparr>skills := (skills settings)\<lparr>plugins := ps\<rparr>\<rparr>"

definition with_disabled_bundled :: "agent_settings \<Rightarrow> string list \<Rightarrow> agent_settings" where
  "with_disabled_bundled settings ds =
     settings\<lparr>skills := (skills settings)\<lparr>disabled_bundled := ds\<rparr>\<rparr>"

definition saved :: "agent_settings \<Rightarrow> 'd world \<Rightarrow> 'd world" where
  "saved settings w = w\<lparr>files := save_config settings get_config_path (files w)\<rparr>"

section \<open>install\_skill\<close>

text \<open>
  One turn of the loop \<^verbatim>\<open>for entry in installed_entries\<close>: an existing plugin with the
  entry's canonical name is updated in place, otherwise a new plugin is appended.
\<close>

definition record_entry ::
  "(string \<Rightarrow> exn + string) \<Rightarrow> string \<Rightarrow> string \<Rightarrow> installed_entry \<Rightarrow>
   plugin_skill_source list \<Rightarrow> exn + plugin_skill_source list"
where
  "record_entry norm url br entry ps =
     (case find_plugin norm (name_canonical entry) ps of
        Inl e \<Rightarrow> Inl e
      | Inr (Some i) \<Rightarrow>
          Inr (ps[i := (ps ! i)\<lparr>git_url := url, branch := br,
                               installed_path := entry_installed_path entry,
                               enabled := True\<rparr>])
      | Inr None \<Rightarrow>
          Inr (ps @ [\<lparr>name = name_canonical entry, git_url = url, branch = br,
                      enabled = True, installed_path = entry_installed_path entry\<rparr>]))"

fun record_entries ::
  "(string \<Rightarrow> exn + string) \<Rightarrow> string \<Rightarrow> string \<Rightarrow> installed_entry list \<Rightarrow>
   plugin_skill_source list \<Rightarrow> exn + plugin_skill_source list"
where
  "record_entries norm url br [] ps = Inr ps"
| "record_entries norm url br (entry # entries) ps =
     (case record_entry norm url br entry ps of
        Inl e \<Rightarrow> Inl e
      | Inr ps' \<Rightarrow> record_entries norm url br entries ps')"

definition install_skill_body ::
  "'d collaborators \<Rightarrow> string \<Rightarrow> string option \<Rightarrow> string \<Rightarrow> 'd world \<Rightarrow> (exn + unit) \<times> 'd world"
where
  "install_skill_body C url skill_name br w =
     (case load_config (files w) get_config_path of
        Inl e \<Rightarrow> (Inl e, w)
      | Inr settings \<Rightarrow>
          (case manager_install C url skill_name br True (disk w) of
             (Inl e, d) \<Rightarrow> (Inl e, w\<lparr>disk := d\<rparr>)
           | (Inr installed_entries, d) \<Rightarrow>
               (case record_entries (normalize_skill_name C) url br installed_entries
                       (plugins (skills settings)) of
                  Inl e \<Rightarrow> (Inl e, w\<lparr>disk := d\<rparr>)
                | Inr ps \<Rightarrow> (Inr (), saved (with_plugins settings ps) (w\<lparr>disk := d\<rparr>)))))"

definition install_skill ::
  "'d collaborators \<Rightarrow> string \<Rightarrow> string option \<Rightarrow> string \<Rightarrow> 'd world \<Rightarrow> (exn + unit) \<times> 'd world"
where
  "install_skill C url skill_name br w = handle_errors (install_skill_body C url skill_name br w)"

section \<open>update\_skill\<close>

text \<open>
  The guard \<^verbatim>\<open>if not plugin\<close> raises \<^verbatim>\<open>typer.Exit(1)\<close> before the manager is called; the
  command itself saves nothing.
\<close>

definition update_skill_body ::
  "'d collaborators \<Rightarrow> string \<Rightarrow> 'd world \<Rightarrow> (exn + unit) \<times> 'd world"
where
  "update_skill_body C nm w =
     (case load_config (files w) get_config_path of
        Inl e \<Rightarrow> (Inl e, w)
      | Inr settings \<Rightarrow>
          (case normalize_skill_name C nm of
             Inl e \<Rightarrow> (Inl e, w)
           | Inr canonical_name \<Rightarrow>
               (case find_plugin (normalize_skill_name C) canonical_name
                       (plugins (skills settings)) of
                  Inl e \<Rightarrow> (Inl e, w)
                | Inr None \<Rightarrow> (Inl (TyperExit 1), w)
                | Inr (Some i) \<Rightarrow>
                    (case manager_update C canonical_name (disk w) of
                       (Inl e, d) \<Rightarrow> (Inl e, w\<lparr>disk := d\<rparr>)
                     | (Inr updated_path, d) \<Rightarrow> (Inr (), w\<lparr>disk := d\<rparr>)))))"

definition update_skill ::
  "'d collaborators \<Rightarrow> string \<Rightarrow> 'd world \<Rightarrow> (exn + unit) \<times> 'd world"
where
  "update_skill C nm w = handle_errors (update_skill_body C nm w)"

section \<open>remove\_skill\<close>

text \<open>\<open>confirm\<close> is the user's answer to \<^verbatim>\<open>Confirm.ask\<close>.\<close>

definition remove_skill_body ::
  "'d collaborators \<Rightarrow> string \<Rightarrow> bool \<Rightarrow> bool \<Rightarrow> 'd world \<Rightarrow> (exn + unit) \<times> 'd world"
where
  "remove_skill_body C nm keep_files confirm w =
     (case load_config (files w) get_config_path of
        Inl e \<Rightarrow> (Inl e, w)
      | Inr settings \<Rightarrow>
          (case normalize_skill_name C nm of
             Inl e \<Rightarrow> (Inl e, w)
           | Inr canonical_name \<Rightarrow>
               (case find_plugin (normalize_skill_name C) canonical_name
                       (plugins (skills settings)) of
                  Inl e \<Rightarrow> (Inl e, w)
                | Inr None \<Rightarrow> (Inl (TyperExit 1), w)
                | Inr (Some i) \<Rightarrow>
                    if \<not> confirm then (Inr (), w)
                    else
                      (case (if \<not> keep_files then manager_remove C canonical_name (disk w)
                             else (Inr (), disk w)) of
                         (Inl e, d) \<Rightarrow> (Inl e, w\<lparr>disk := d\<rparr>)
                       | (Inr u, d) \<Rightarrow>
                           (case drop_canonical (normalize_skill_name C) canonical_name name
                                   (plugins (skills settings)) of
                              Inl e \<Rightarrow> (Inl e, w\<lparr>disk := d\<rparr>)
                            | Inr ps \<Rightarrow>
                                (Inr (), saved (with_plugins settings ps) (w\<lparr>disk := d\<rparr>)))))))"

definition remove_skill ::
  "'d collaborators \<Rightarrow> string \<Rightarrow> bool \<Rightarrow> bool \<Rightarrow> 'd world \<Rightarrow> (exn + unit) \<times> 'd world"
where
  "remove_skill C nm keep_files confirm w =
     handle_errors (remove_skill_body C nm keep_files confirm w)"

section \<open>enable\_skill and disable\_skill\<close>

text \<open>
  A name that is the canonical name of a plugin toggles the plugin's \<open>enabled\<close> flag; any
  other name is taken to be a bundled skill and is removed from, or appended to,
  \<open>disabled_bundled\<close>. Nothing is saved when the flag or the list is already as asked.
\<close>

definition enable_skill_body ::
  "'d collaborators \<Rightarrow> string \<Rightarrow> 'd world \<Rightarrow> (exn + unit) \<times> 'd world"
where
  "enable_skill_body C nm w =
     (case load_config (files w) get_config_path of
        Inl e \<Rightarrow> (Inl e, w)
      | Inr settings \<Rightarrow>
          (case normalize_skill_name C nm of
             Inl e \<Rightarrow> (Inl e, w)
           | Inr canonical_name \<Rightarrow>
               (case find_plugin (normalize_skill_name C) canonical_name
                       (plugins (skills settings)) of
                  Inl e \<Rightarrow> (Inl e, w)
                | Inr (Some i) \<Rightarrow>
                    if enabled (plugins (skills settings) ! i) then (Inr (), w)
                    else (Inr (),
                          saved (with_plugins settings
                                   ((plugins (skills settings))
                                      [i := (plugins (skills settings) ! i)\<lparr>enabled := True\<rparr>])) w)
                | Inr None \<Rightarrow>
                    (case normalize_all (normalize_skill_name C)
                            (disabled_bundled (skills settings)) of
                       Inl e \<Rightarrow> (Inl e, w)
                     | Inr disabled \<Rightarrow>
                         if canonical_name \<in> set disabled
                         then (case drop_canonical (normalize_skill_name C) canonical_name
                                      (\<lambda>s. s) (disabled_bundled (skills settings)) of
                                 Inl e \<Rightarrow> (Inl e, w)
                               | Inr ds \<Rightarrow> (Inr (), saved (with_disabled_bundled settings ds) w))
                         else (Inr (), w)))))"

definition enable_skill ::
  "'d collaborators \<Rightarrow> string \<Rightarrow> 'd world \<Rightarrow> (exn + unit) \<times> 'd world"
where
  "enable_skill C nm w = handle_errors (enable_skill_body C nm w)"

definition disable_skill_body ::
  "'d collaborators \<Rightarrow> string \<Rightarrow> 'd world \<Rightarrow> (exn + unit) \<times> 'd world"
where
  "disable_skill_body C nm w =
     (case load_config (files w) get_config_path of
        Inl e \<Rightarrow> (Inl e, w)
      | Inr settings \<Rightarrow>
          (case normalize_skill_name C nm of
             Inl e \<Rightarrow> (Inl e, w)
           | Inr canonical_name \<Rightarrow>
               (case find_plugin (normalize_skill_name C) canonical_name
                       (plugins (skills settings)) of
                  Inl e \<Rightarrow> (Inl e, w)
                | Inr (Some i) \<Rightarrow>
                    if \<not> enabled (plugins (skills settings) ! i) then (Inr (), w)
                    else (Inr (),
                          saved (with_plugins settings
                                   ((plugins (skills settings))
                                      [i := (plugins (skills settings) ! i)\<lparr>enabled := False\<rparr>])) w)
                | Inr None \<Rightarrow>
                    (case normalize_all (normalize_skill_name C)
                            (disabled_bundled (skills settings)) of
                       Inl e \<Rightarrow> (Inl e, w)
                     | Inr disabled \<Rightarrow>
                         if canonical_name \<notin> set disabled
                         then (Inr (),
                               saved (with_disabled_bundled settings
                                        (disabled_bundled (skills settings) @ [canonical_name])) w)
                         else (Inr (), w)))))"

definition disable_skill ::
  "'d collaborators \<Rightarrow> string \<Rightarrow> 'd world \<Rightarrow> (exn + unit) \<times> 'd world"
where
  "disable_skill C nm w = handle_errors (disable_skill_body C nm w)"

section \<open>list\_skills\<close>

text \<open>\<^verbatim>\<open>skill_dir.name\<close>: the last component of a path.\<close>

definition path_name :: "path \<Rightarrow> string" where
  "path_name p = rev (takeWhile (\<lambda>c. c \<noteq> CHR ''/'') (rev p))"

text \<open>
  What the command prints: the rows of the two tables as (name, enabled), an empty
  bundled table standing for \<^verbatim>\<open>No bundled skills found\<close>, and the four numbers of the
  summary line. The location, source and branch columns are display only and are not
  kept in the rows; the location of a bundled row is computed all the same, because
  computing it can raise.
\<close>

record skills_listing =
  bundled_table :: "(string \<times> bool) list"
  plugin_table :: "(string \<times> bool) list"
  enabled_bundled :: int
  total_bundled :: int
  enabled_plugins :: int
  total_plugins :: int

fun bundled_rows ::
  "(string \<Rightarrow> exn + string) \<Rightarrow> (path \<Rightarrow> exn + string) \<Rightarrow> string list \<Rightarrow> path list \<Rightarrow>
   exn + (string \<times> bool) list"
where
  "bundled_rows norm location disabled [] = Inr []"
| "bundled_rows norm location disabled (skill_dir # rest) =
     (case norm (path_name skill_dir) of
        Inl e \<Rightarrow> Inl e
      | Inr canonical \<Rightarrow>
          (case location skill_dir of
             Inl e \<Rightarrow> Inl e
           | Inr shown \<Rightarrow>
               (case bundled_rows norm location disabled rest of
                  Inl e \<Rightarrow> Inl e
                | Inr rows \<Rightarrow>
                    Inr ((path_name skill_dir, canonical \<notin> set disabled) # rows))))"

text \<open>
  The directory scanned: the configured one, the auto-detected one only when
  \<^verbatim>\<open>bundled_dir is None\<close>; nothing is scanned when that directory does not exist.
\<close>

definition bundled_path_of :: "'d collaborators \<Rightarrow> agent_settings \<Rightarrow> path" where
  "bundled_path_of C settings =
     (case bundled_dir (skills settings) of
        None \<Rightarrow> auto_bundled_dir C
      | Some configured \<Rightarrow> configured)"

definition scanned_bundled_skills :: "'d collaborators \<Rightarrow> 'd \<Rightarrow> agent_settings \<Rightarrow> path list" where
  "scanned_bundled_skills C d settings =
     (let bundled_path = bundled_path_of C settings
      in if path_exists C d bundled_path then scan_skill_directory C d bundled_path else [])"

definition list_skills_body :: "'d collaborators \<Rightarrow> 'd world \<Rightarrow> exn + skills_listing" where
  "list_skills_body C w =
     (case load_config (files w) get_config_path of
        Inl e \<Rightarrow> Inl e
      | Inr settings \<Rightarrow>
          (let bundled_skills = scanned_bundled_skills C (disk w) settings
           in case (if bundled_skills \<noteq> []
                    then (case normalize_all (normalize_skill_name C)
                                 (disabled_bundled (skills settings)) of
                            Inl e \<Rightarrow> Inl e
                          | Inr disabled \<Rightarrow>
                              bundled_rows (normalize_skill_name C)
                                (\<lambda>skill_dir. relative_location C skill_dir
                                               (bundled_path_of C settings))
                                disabled bundled_skills)
                    else Inr []) of
                Inl e \<Rightarrow> Inl e
              | Inr rows \<Rightarrow>
                  Inr \<lparr>bundled_table = rows,
                       plugin_table = map (\<lambda>p. (name p, enabled p)) (plugins (skills settings)),
                       enabled_bundled = int (length bundled_skills)
                                         - int (length (disabled_bundled (skills settings))),
                       total_bundled = int (length bundled_skills),
                       enabled_plugins = int (length (filter enabled (plugins (skills settings)))),
                       total_plugins = int (length (plugins (skills settings)))\<rparr>))"

definition list_skills :: "'d collaborators \<Rightarrow> 'd world \<Rightarrow> exn + skills_listing" where
  "list_skills C w =
     (case list_skills_body C w of
        Inl e \<Rightarrow> Inl (TyperExit 1)
      | Inr listing \<Rightarrow> Inr listing)"

section \<open>AgentConfig\<close>









section \<open>ConfigResolver\<close>

text \<open>
  Modelled from the spec: \<^verbatim>\<open>AgentConfig.from_combined\<close> is not among the sources
  (\<^verbatim>\<open>src/agent/config.py\<close> has \<^verbatim>\<open>from_env\<close> only). Sections 3 and 4.4 of the
  specification say: for any single field the resolved value is the first non-absent
  value found while scanning file, environment, defaults. A layer gives each field a
  value or nothing; the defaults give every field a value.
\<close>

definition from_combined :: "('f \<Rightarrow> 'v option) \<Rightarrow> ('f \<Rightarrow> 'v option) \<Rightarrow> ('f \<Rightarrow> 'v) \<Rightarrow> 'f \<Rightarrow> 'v" where
  "from_combined file env dflt field =
     (case file field of
        Some v \<Rightarrow> v
      | None \<Rightarrow> (case env field of Some v \<Rightarrow> v | None \<Rightarrow> dflt field))"

text \<open>
  Modelled from the spec: \<^verbatim>\<open>ConfigResolver.resolve\<close> is not among the sources. A CLI
  argument, when present, is applied after file and environment as a final override.
\<close>

definition resolve ::
  "('f \<Rightarrow> 'v option) \<Rightarrow> ('f \<Rightarrow> 'v option) \<Rightarrow> ('f \<Rightarrow> 'v option) \<Rightarrow> ('f \<Rightarrow> 'v) \<Rightarrow> 'f \<Rightarrow> 'v"
where
  "resolve cli file env dflt field =
     (case cli field of
        Some v \<Rightarrow> v
      | None \<Rightarrow> from_combined file env dflt field)"

section \<open>Canonical names of a plugin list\<close>

text \<open>The canonical names of the plugins on record, in list order.\<close>

fun canonical_names :: "(string \<Rightarrow> exn + string) \<Rightarrow> plugin_skill_source list \<Rightarrow> string list" where
  "canonical_names norm [] = []"
| "canonical_names norm (p # ps) =
     (case norm (name p) of
        Inl e \<Rightarrow> canonical_names norm ps
      | Inr c \<Rightarrow> c # canonical_names norm ps)"

section \<open>An example installation\<close>

text \<open>
  Concrete collaborators for running the commands: the canonicalizer above with bound
  64, directories given as a list of (directory, skill directories found in it), and a
  manager that installs one skill.
\<close>

type_synonym example_disk = "(path \<times> path list) list"

definition example_entry :: installed_entry where
  "example_entry =
     \<lparr>entry_name = ''My Skill'', name_canonical = ''my-skill'',
      entry_installed_path = ''/managed/my-skill''\<rparr>"

definition example_install ::
  "string \<Rightarrow> string option \<Rightarrow> string \<Rightarrow> bool \<Rightarrow> example_disk \<Rightarrow> (exn + installed_entry list) \<times> example_disk"
where
  "example_install url skill_name br trusted d =
     (Inr [example_entry], (''/managed/my-skill'', []) # d)"

definition example_update :: "string \<Rightarrow> example_disk \<Rightarrow> (exn + path) \<times> example_disk" where
  "example_update canonical_name d =
     (if map_of d (''/managed/'' @ canonical_name) = None then (Inl SkillNotFoundError, d)
      else (Inr (''/managed/'' @ canonical_name), d))"

definition example_remove :: "string \<Rightarrow> example_disk \<Rightarrow> (exn + unit) \<times> example_disk" where
  "example_remove canonical_name d =
     (Inr (), filter (\<lambda>entry. fst entry \<noteq> ''/managed/'' @ canonical_name) d)"

definition example_exists :: "example_disk \<Rightarrow> path \<Rightarrow> bool" where
  "example_exists d p \<longleftrightarrow> map_of d p \<noteq> None"

definition example_scan :: "example_disk \<Rightarrow> path \<Rightarrow> path list" where
  "example_scan d p = (case map_of d p of None \<Rightarrow> [] | Some found \<Rightarrow> found)"

text \<open>
  The location of a skill directory below the bundled directory, starting at the bundled
  directory's own name.
\<close>

definition example_location :: "path \<Rightarrow> path \<Rightarrow> exn + string" where
  "example_location skill_dir bundled_path =
     (if take (length bundled_path) skill_dir = bundled_path
      then Inr (path_name bundled_path @ drop (length bundled_path) skill_dir)
      else Inl ValueError)"

definition example_collaborators :: "example_disk collaborators" where
  "example_collaborators =
     \<lparr>normalize_skill_name = canonicalize 64,
      manager_install = example_install,
      manager_update = example_update,
      manager_remove = example_remove,
      path_exists = example_exists,
      scan_skill_directory = example_scan,
      auto_bundled_dir = ''/repo/skills/core'',
      relative_location = example_location\<rparr>"

definition no_files :: config_files where
  "no_files p = Missing"

definition example_plugin :: plugin_skill_source where
  "example_plugin =
     \<lparr>name = ''my-skill'', git_url = ''https://host/old.git'', branch = ''dev'',
      enabled = False, installed_path = ''/managed/old''\<rparr>"

definition example_settings :: agent_settings where
  "example_settings =
     \<lparr>providers_enabled = [''openai''],
      skills = \<lparr>bundled_dir = Some ''/nonexistent/path/to/skills'', disabled_bundled = [],
                plugins = [example_plugin]\<rparr>,
      other_fields = [(''future_field'', ''kept'')]\<rparr>"

definition example_files :: config_files where
  "example_files = save_config example_settings get_config_path no_files"

definition example_disk :: example_disk where
  "example_disk =
     [(''/repo/skills/core'', [''/repo/skills/core/test-skill'']), (''/managed/old'', [])]"

definition example_world :: "example_disk world" where
  "example_world = \<lparr>files = example_files, disk = example_disk\<rparr>"

definition fresh_world :: "example_disk world" where
  "fresh_world = \<lparr>files = no_files, disk = [(''/repo/skills/core'', [])]\<rparr>"

text \<open>The example world with no bundled directory configured.\<close>

definition unconfigured_settings :: agent_settings where
  "unconfigured_settings =
     example_settings\<lparr>skills := (skills example_settings)\<lparr>bundled_dir := None\<rparr>\<rparr>"

definition unconfigured_world :: "example_disk world" where
  "unconfigured_world =
     \<lparr>files = save_config unconfigured_settings get_config_path no_files, disk = example_disk\<rparr>"

section \<open>An example with two plugins on record and two discovered units\<close>

text \<open>
  A second world for running the commands: two plugins on record, the first under a raw
  name that is not canonical, and a manager whose clone holds two units, one on record
  and one new.
\<close>

definition second_entry :: installed_entry where
  "second_entry =
     \<lparr>entry_name = ''New Skill'', name_canonical = ''new-skill'',
      entry_installed_path = ''/managed/new-skill''\<rparr>"

definition monorepo_install ::
  "string \<Rightarrow> string option \<Rightarrow> string \<Rightarrow> bool \<Rightarrow> example_disk \<Rightarrow> (exn + installed_entry list) \<times> example_disk"
where
  "monorepo_install url skill_name br trusted d =
     (Inr [example_entry, second_entry],
      (''/managed/new-skill'', []) # (''/managed/my-skill'', []) # d)"

definition monorepo_collaborators :: "example_disk collaborators" where
  "monorepo_collaborators = example_collaborators\<lparr>manager_install := monorepo_install\<rparr>"

definition kept_plugin :: plugin_skill_source where
  "kept_plugin =
     \<lparr>name = ''Keep_Me'', git_url = ''https://host/keep.git'', branch = ''main'',
      enabled = False, installed_path = ''/managed/keep-me''\<rparr>"

definition two_plugin_settings :: agent_settings where
  "two_plugin_settings = with_plugins example_settings [kept_plugin, example_plugin]"

definition two_plugin_world :: "example_disk world" where
  "two_plugin_world =
     \<lparr>files = save_config two_plugin_settings get_config_path no_files,
      disk = (''/managed/keep-me'', []) # example_disk\<rparr>"

text \<open>A discovered unit whose raw name has the canonical form of the first plugin's name.\<close>

definition kept_entry :: installed_entry where
  "kept_entry =
     \<lparr>entry_name = ''Keep Me'', name_canonical = ''keep-me'',
      entry_installed_path = ''/managed/keep-me-2''\<rparr>"

section \<open>Example layers for the resolver\<close>

definition example_file_layer :: "string \<Rightarrow> string option" where
  "example_file_layer = map_of [(''openai_api_key'', ''file-key'')]"

definition example_env_layer :: "string \<Rightarrow> string option" where
  "example_env_layer =
     map_of [(''openai_api_key'', ''env-key-override''), (''openai_model'', ''gpt-4o'')]"

definition example_cli_layer :: "string \<Rightarrow> string option" where
  "example_cli_layer = map_of [(''openai_api_key'', ''cli-key'')]"

definition example_defaults :: "string \<Rightarrow> string" where
  "example_defaults field =
     (if field = ''anthropic_model'' then ''claude-sonnet-4-5-20250929'' else [])"

section \<open>What is on record\<close>

definition persisted_plugins :: "'d world \<Rightarrow> plugin_skill_source list" where
  "persisted_plugins w =
     (case load_config (files w) get_config_path of
        Inl e \<Rightarrow> []
      | Inr settings \<Rightarrow> plugins (skills settings))"

definition persisted_disabled_bundled :: "'d world \<Rightarrow> string list" where
  "persisted_disabled_bundled w =
     (case load_config (files w) get_config_path of
        Inl e \<Rightarrow> []
      | Inr settings \<Rightarrow> disabled_bundled (skills settings))"

section \<open>Facts about the lookups\<close>

lemma find_plugin_Some:
  "find_plugin norm c ps = Inr (Some i) \<Longrightarrow>
     i < length ps \<and> norm (name (ps ! i)) = Inr c \<and>
     (\<forall>j<i. \<exists>n. norm (name (ps ! j)) = Inr n \<and> n \<noteq> c)"
proof (induction ps arbitrary: i)
  case Nil
  then show ?case by simp
next
  case (Cons p ps)
  show ?case
  proof (cases "norm (name p)")
    case (Inl e)
    with Cons.prems show ?thesis by simp
  next
    case (Inr n)
    show ?thesis
    proof (cases "n = c")
      case True
      with Inr Cons.prems show ?thesis by simp
    next
      case False
      with Inr Cons.prems obtain k where k: "find_plugin norm c ps = Inr (Some k)" "i = Suc k"
        by (auto split: sum.splits option.splits)
      from Cons.IH [OF k(1)] Inr False k(2) show ?thesis
        by (auto simp: less_Suc_eq_0_disj)
    qed
  qed
qed

lemma find_plugin_None:
  "find_plugin norm c ps = Inr None \<Longrightarrow> \<forall>p\<in>set ps. \<exists>n. norm (name p) = Inr n \<and> n \<noteq> c"
  by (induction ps) (auto split: sum.splits option.splits if_splits)

lemma find_plugin_no_match:
  assumes "\<forall>p\<in>set ps. norm (name p) \<noteq> Inr c"
  shows "find_plugin norm c ps \<noteq> Inr (Some i)"
proof
  assume "find_plugin norm c ps = Inr (Some i)"
  from find_plugin_Some [OF this] have "i < length ps" "norm (name (ps ! i)) = Inr c"
    by simp_all
  with assms show False
    by (metis nth_mem)
qed

lemma find_plugin_names:
  "map name ps = map name qs \<Longrightarrow> find_plugin norm c ps = find_plugin norm c qs"
proof (induction ps arbitrary: qs)
  case Nil
  then show ?case by simp
next
  case (Cons p ps)
  then obtain q qs' where "qs = q # qs'" "name p = name q" "map name ps = map name qs'"
    by (cases qs) auto
  with Cons.IH [of qs'] show ?case by (simp split: sum.splits)
qed

lemma find_plugin_append:
  "find_plugin norm c ps = Inr (Some i) \<Longrightarrow> find_plugin norm c (ps @ qs) = Inr (Some i)"
  by (induction ps arbitrary: i) (auto split: sum.splits option.splits if_splits)

lemma find_plugin_present:
  assumes "\<forall>p\<in>set ps. \<exists>n. norm (name p) = Inr n"
    and "c \<in> set (canonical_names norm ps)"
  shows "\<exists>i. find_plugin norm c ps = Inr (Some i)"
  using assms
  by (induction ps) (auto split: sum.splits option.splits if_splits)

lemma find_plugin_canonical_cong:
  "map (\<lambda>p. norm (name p)) ps = map (\<lambda>p. norm (name p)) qs \<Longrightarrow>
   find_plugin norm c ps = find_plugin norm c qs"
proof (induction ps arbitrary: qs)
  case Nil
  then show ?case by simp
next
  case (Cons p ps)
  then obtain q qs' where "qs = q # qs'" "norm (name p) = norm (name q)"
      "map (\<lambda>p. norm (name p)) ps = map (\<lambda>p. norm (name p)) qs'"
    by (cases qs) auto
  with Cons.IH [of qs'] show ?case by (simp split: sum.splits)
qed

lemma normalize_all_fixed:
  "\<forall>s\<in>set xs. norm s = Inr s \<Longrightarrow> normalize_all norm xs = Inr xs"
  by (induction xs) auto

lemma drop_canonical_filter:
  "drop_canonical norm c key xs = Inr ys \<Longrightarrow> ys = filter (\<lambda>x. norm (key x) \<noteq> Inr c) xs"
  by (induction xs arbitrary: ys) (auto split: sum.splits if_splits)

lemma drop_canonical_total:
  "\<forall>x\<in>set xs. \<exists>n. norm (key x) = Inr n \<Longrightarrow>
   drop_canonical norm c key xs = Inr (filter (\<lambda>x. norm (key x) \<noteq> Inr c) xs)"
  by (induction xs) auto

section \<open>Facts about canonical names\<close>

lemma canonical_names_cong:
  "map name ps = map name qs \<Longrightarrow> canonical_names norm ps = canonical_names norm qs"
proof (induction ps arbitrary: qs)
  case Nil
  then show ?case by simp
next
  case (Cons p ps)
  then obtain q qs' where "qs = q # qs'" "name p = name q" "map name ps = map name qs'"
    by (cases qs) auto
  with Cons.IH [of qs'] show ?case by (simp split: sum.splits)
qed

lemma canonical_names_append:
  "canonical_names norm (ps @ qs) = canonical_names norm ps @ canonical_names norm qs"
  by (induction ps) (auto split: sum.splits)

lemma set_canonical_names:
  "set (canonical_names norm ps) = {c. \<exists>p\<in>set ps. norm (name p) = Inr c}"
  by (induction ps) (auto split: sum.splits)

lemma canonical_names_filter:
  "c \<notin> set (canonical_names norm (filter (\<lambda>p. norm (name p) \<noteq> Inr c) ps))"
  by (auto simp: set_canonical_names)

section \<open>Facts about the canonicalizer\<close>

lemma safe_lower: "safe_char c \<Longrightarrow> lower_char c = c"
  unfolding safe_char_def by (simp, elim disjE; simp add: lower_char_def)

lemma safe_not_sep: "safe_char c \<Longrightarrow> \<not> is_separator c"
  unfolding safe_char_def by (simp, elim disjE; simp add: is_separator_def)

lemma collapse_safe: "\<forall>c\<in>set s. safe_char c \<Longrightarrow> collapse_separators b s = s"
  by (induction s arbitrary: b) (auto simp: safe_not_sep)

lemma canonicalize_idem:
  assumes "canonicalize n raw = Inr c"
  shows "canonicalize n c = Inr c"
proof -
  let ?t = "filter safe_char (collapse_separators False (map lower_char raw))"
  from assms have c: "c = take n ?t" "c \<noteq> []"
    by (auto simp: canonicalize_def Let_def split: if_splits)
  have safe: "\<forall>x\<in>set c. safe_char x"
    unfolding c(1) by (auto dest: in_set_takeD)
  then have "map lower_char c = c"
    by (simp add: map_idI safe_lower)
  moreover from safe have "collapse_separators False c = c"
    by (rule collapse_safe)
  moreover from safe have "filter safe_char c = c"
    by simp
  moreover have "take n c = c"
    unfolding c(1) by simp
  ultimately show ?thesis
    using c(2) by (simp add: canonicalize_def)
qed

section \<open>Facts about the settings store\<close>

lemma temp_path_neq: "temp_path p \<noteq> p" "p \<noteq> temp_path p"
  by (simp_all add: temp_path_def)

lemma load_after_save: "load_config (save_config settings p fs) p = Inr settings"
  by (simp add: load_config_def save_config_def Let_def temp_path_neq)

lemma load_saved:
  "load_config (files (saved settings w)) get_config_path = Inr settings"
  by (simp add: saved_def load_after_save)

lemma disk_saved: "disk (saved settings w) = disk w"
  by (simp add: saved_def)

lemma persisted_plugins_saved:
  "persisted_plugins (saved (with_plugins settings ps) w) = ps"
  by (simp add: persisted_plugins_def load_saved with_plugins_def)

lemma persisted_disabled_saved_plugins:
  "persisted_disabled_bundled (saved (with_plugins settings ps) w)
     = disabled_bundled (skills settings)"
  by (simp add: persisted_disabled_bundled_def load_saved with_plugins_def)

lemma persisted_disabled_saved:
  "persisted_disabled_bundled (saved (with_disabled_bundled settings ds) w) = ds"
  by (simp add: persisted_disabled_bundled_def load_saved with_disabled_bundled_def)

lemma persisted_plugins_saved_disabled:
  "persisted_plugins (saved (with_disabled_bundled settings ds) w) = plugins (skills settings)"
  by (simp add: persisted_plugins_def load_saved with_disabled_bundled_def)

section \<open>Facts about recording installed entries\<close>

lemma map_name_update:
  "map name (ps[i := (ps ! i)\<lparr>git_url := u, branch := b, installed_path := ip, enabled := en\<rparr>])
     = map name ps"
  by (cases "i < length ps") (simp_all add: map_update list_update_same_conv list_update_beyond)

lemma map_name_enabled_update:
  "map name (ps[i := (ps ! i)\<lparr>enabled := en\<rparr>]) = map name ps"
  by (cases "i < length ps") (simp_all add: map_update list_update_same_conv list_update_beyond)

lemma record_entry_found:
  "find_plugin norm (name_canonical entry) ps = Inr (Some i) \<Longrightarrow>
   record_entry norm url br entry ps
     = Inr (ps[i := (ps ! i)\<lparr>git_url := url, branch := br,
                             installed_path := entry_installed_path entry, enabled := True\<rparr>])"
  by (simp add: record_entry_def)

lemma record_entry_cases:
  assumes "record_entry norm url br entry ps = Inr ps'"
  obtains (found) i where "find_plugin norm (name_canonical entry) ps = Inr (Some i)"
      "ps' = ps[i := (ps ! i)\<lparr>git_url := url, branch := br,
                             installed_path := entry_installed_path entry, enabled := True\<rparr>]"
  | (appended) "find_plugin norm (name_canonical entry) ps = Inr None"
      "ps' = ps @ [\<lparr>name = name_canonical entry, git_url = url, branch = br,
                    enabled = True, installed_path = entry_installed_path entry\<rparr>]"
  using assms by (auto simp: record_entry_def split: sum.splits option.splits)

lemma record_entry_distinct:
  assumes "record_entry norm url br entry ps = Inr ps'"
    and "distinct (canonical_names norm ps)"
    and "norm (name_canonical entry) = Inr (name_canonical entry)"
  shows "distinct (canonical_names norm ps')"
  using assms(1)
proof (cases rule: record_entry_cases)
  case (found i)
  then have "canonical_names norm ps' = canonical_names norm ps"
    by (simp add: canonical_names_cong [OF map_name_update])
  with assms(2) show ?thesis by simp
next
  case appended
  from find_plugin_None [OF appended(1)]
  have "name_canonical entry \<notin> set (canonical_names norm ps)"
    by (auto simp: set_canonical_names)
  with assms(2,3) appended(2) show ?thesis
    by (simp add: canonical_names_append)
qed

lemma record_entries_distinct:
  assumes "record_entries norm url br entries ps = Inr ps'"
    and "distinct (canonical_names norm ps)"
    and "\<forall>e\<in>set entries. norm (name_canonical e) = Inr (name_canonical e)"
  shows "distinct (canonical_names norm ps')"
  using assms
proof (induction entries arbitrary: ps)
  case Nil
  then show ?case by simp
next
  case (Cons e entries)
  from Cons.prems(1) obtain qs where qs: "record_entry norm url br e ps = Inr qs"
      "record_entries norm url br entries qs = Inr ps'"
    by (auto split: sum.splits)
  from record_entry_distinct [OF qs(1) Cons.prems(2)] Cons.prems(3)
  have "distinct (canonical_names norm qs)" by simp
  from Cons.IH [OF qs(2) this] Cons.prems(3) show ?case by simp
qed

lemma record_entry_present:
  assumes "record_entry norm url br entry ps = Inr ps'"
    and "name_canonical entry \<in> set (canonical_names norm ps)"
  shows "map name ps' = map name ps"
  using assms(1)
proof (cases rule: record_entry_cases)
  case (found i)
  then show ?thesis by (simp add: map_name_update)
next
  case appended
  from find_plugin_None [OF appended(1)] assms(2) show ?thesis
    by (auto simp: set_canonical_names)
qed

lemma record_entries_present:
  assumes "record_entries norm url br entries ps = Inr ps'"
    and "\<forall>e\<in>set entries. name_canonical e \<in> set (canonical_names norm ps)"
  shows "map name ps' = map name ps"
  using assms
proof (induction entries arbitrary: ps)
  case Nil
  then show ?case by simp
next
  case (Cons e entries)
  from Cons.prems(1) obtain qs where qs: "record_entry norm url br e ps = Inr qs"
      "record_entries norm url br entries qs = Inr ps'"
    by (auto split: sum.splits)
  from record_entry_present [OF qs(1)] Cons.prems(2) have names: "map name qs = map name ps"
    by simp
  then have "canonical_names norm qs = canonical_names norm ps"
    by (rule canonical_names_cong)
  with Cons.IH [OF qs(2)] Cons.prems(2) names show ?case by simp
qed

lemma record_entry_index:
  assumes "record_entry norm url br entry ps = Inr ps'"
    and "find_plugin norm c ps = Inr (Some i)"
  shows "find_plugin norm c ps' = Inr (Some i)"
  using assms(1)
proof (cases rule: record_entry_cases)
  case (found k)
  from found(2) have "map name ps' = map name ps"
    by (simp add: map_name_update)
  from find_plugin_names [OF this] assms(2) show ?thesis by simp
next
  case appended
  with assms(2) show ?thesis by (simp add: find_plugin_append)
qed

lemma record_entry_touch:
  assumes "record_entry norm url br entry ps = Inr ps'"
    and "find_plugin norm (name_canonical entry) ps = Inr (Some i)"
  shows "i < length ps' \<and> name (ps' ! i) = name (ps ! i) \<and> enabled (ps' ! i) \<and>
         git_url (ps' ! i) = url \<and> branch (ps' ! i) = br"
  using assms find_plugin_Some [OF assms(2)]
  by (auto simp: record_entry_def)

lemma record_entry_stays:
  assumes "record_entry norm url br entry ps = Inr ps'"
    and "i < length ps" and "enabled (ps ! i)" and "git_url (ps ! i) = url"
    and "branch (ps ! i) = br"
  shows "i < length ps' \<and> name (ps' ! i) = name (ps ! i) \<and> enabled (ps' ! i) \<and>
         git_url (ps' ! i) = url \<and> branch (ps' ! i) = br"
  using assms(1)
proof (cases rule: record_entry_cases)
  case (found k)
  with assms(2-) show ?thesis
    by (cases "k = i") simp_all
next
  case appended
  with assms(2-) show ?thesis
    by (simp add: nth_append)
qed

lemma record_entries_stays:
  assumes "record_entries norm url br entries ps = Inr ps'"
    and "i < length ps" and "enabled (ps ! i)" and "git_url (ps ! i) = url"
    and "branch (ps ! i) = br"
  shows "i < length ps' \<and> name (ps' ! i) = name (ps ! i) \<and> enabled (ps' ! i) \<and>
         git_url (ps' ! i) = url \<and> branch (ps' ! i) = br"
  using assms
proof (induction entries arbitrary: ps)
  case Nil
  then show ?case by simp
next
  case (Cons e entries)
  from Cons.prems(1) obtain qs where qs: "record_entry norm url br e ps = Inr qs"
      "record_entries norm url br entries qs = Inr ps'"
    by (auto split: sum.splits)
  from record_entry_stays [OF qs(1) Cons.prems(2-)]
  have step: "i < length qs" "name (qs ! i) = name (ps ! i)" "enabled (qs ! i)"
    "git_url (qs ! i) = url" "branch (qs ! i) = br"
    by simp_all
  from Cons.IH [OF qs(2) step(1,3,4,5)] step(2) show ?case by simp
qed

lemma record_entries_touch:
  assumes "record_entries norm url br entries ps = Inr ps'"
    and "e \<in> set entries"
    and "find_plugin norm (name_canonical e) ps = Inr (Some i)"
  shows "i < length ps' \<and> name (ps' ! i) = name (ps ! i) \<and> enabled (ps' ! i) \<and>
         git_url (ps' ! i) = url \<and> branch (ps' ! i) = br"
  using assms
proof (induction entries arbitrary: ps)
  case Nil
  then show ?case by simp
next
  case (Cons e' entries)
  from Cons.prems(1) obtain qs where qs: "record_entry norm url br e' ps = Inr qs"
      "record_entries norm url br entries qs = Inr ps'"
    by (auto split: sum.splits)
  show ?case
  proof (cases "e = e'")
    case True
    from record_entry_touch [OF qs(1)] Cons.prems(3) True
    have step: "i < length qs" "name (qs ! i) = name (ps ! i)" "enabled (qs ! i)"
      "git_url (qs ! i) = url" "branch (qs ! i) = br"
      by simp_all
    from record_entries_stays [OF qs(2) step(1,3,4,5)] step(2) show ?thesis by simp
  next
    case False
    with Cons.prems(2) have mem: "e \<in> set entries" by simp
    from record_entry_index [OF qs(1) Cons.prems(3)]
    have idx: "find_plugin norm (name_canonical e) qs = Inr (Some i)" .
    have "name (qs ! i) = name (ps ! i)"
      using qs(1)
    proof (cases rule: record_entry_cases)
      case (found k)
      have "map name qs ! i = map name ps ! i"
        using found(2) by (simp add: map_name_update)
      moreover from find_plugin_Some [OF Cons.prems(3)] have "i < length ps" by simp
      moreover from find_plugin_Some [OF idx] have "i < length qs" by simp
      ultimately show ?thesis by simp
    next
      case appended
      with find_plugin_Some [OF Cons.prems(3)] show ?thesis
        by (simp add: nth_append)
    qed
    with Cons.IH [OF qs(2) mem idx] show ?thesis by simp
  qed
qed

lemma record_entry_records:
  assumes "record_entry norm url br entry ps = Inr ps'"
  shows "\<exists>p\<in>set ps'. enabled p \<and> git_url p = url \<and> branch p = br \<and>
           (name p = name_canonical entry \<or> norm (name p) = Inr (name_canonical entry))"
  using assms
proof (cases rule: record_entry_cases)
  case (found i)
  from find_plugin_Some [OF found(1)]
  have i: "i < length ps" "norm (name (ps ! i)) = Inr (name_canonical entry)"
    by simp_all
  let ?p = "ps' ! i"
  from i found(2) have "?p \<in> set ps'" "enabled ?p" "git_url ?p = url" "branch ?p = br"
    "norm (name ?p) = Inr (name_canonical entry)"
    by (simp_all add: set_update_memI)
  then show ?thesis by blast
next
  case appended
  then show ?thesis by simp
qed

lemma record_entries_keeps:
  assumes "record_entries norm url br entries ps = Inr ps'"
    and "p \<in> set ps" and "enabled p" and "git_url p = url" and "branch p = br"
  shows "\<exists>p'\<in>set ps'. name p' = name p \<and> enabled p' \<and> git_url p' = url \<and> branch p' = br"
proof -
  from assms(2) obtain i where i: "i < length ps" "ps ! i = p"
    by (auto simp: in_set_conv_nth)
  from record_entries_stays [OF assms(1) i(1)] assms(3-) i(2)
  have "i < length ps'" "name (ps' ! i) = name p" "enabled (ps' ! i)"
    "git_url (ps' ! i) = url" "branch (ps' ! i) = br"
    by simp_all
  then show ?thesis
    using nth_mem by blast
qed

lemma record_entries_records:
  assumes "record_entries norm url br entries ps = Inr ps'"
    and "e \<in> set entries"
  shows "\<exists>p\<in>set ps'. enabled p \<and> git_url p = url \<and> branch p = br \<and>
           (name p = name_canonical e \<or> norm (name p) = Inr (name_canonical e))"
  using assms
proof (induction entries arbitrary: ps)
  case Nil
  then show ?case by simp
next
  case (Cons e' entries)
  from Cons.prems(1) obtain qs where qs: "record_entry norm url br e' ps = Inr qs"
      "record_entries norm url br entries qs = Inr ps'"
    by (auto split: sum.splits)
  show ?case
  proof (cases "e = e'")
    case True
    from record_entry_records [OF qs(1)] True obtain p where p: "p \<in> set qs" "enabled p"
      "git_url p = url" "branch p = br"
      "name p = name_canonical e \<or> norm (name p) = Inr (name_canonical e)"
      by blast
    from record_entries_keeps [OF qs(2) p(1-4)] p(5) show ?thesis
      by auto
  next
    case False
    with Cons.prems(2) have "e \<in> set entries" by simp
    from Cons.IH [OF qs(2) this] show ?thesis .
  qed
qed

lemma install_skill_success:
  assumes "install_skill C url skill_name br w = (Inr (), w')"
    and "manager_install C url skill_name br True (disk w) = (Inr entries, d)"
  obtains settings ps where "load_config (files w) get_config_path = Inr settings"
    and "record_entries (normalize_skill_name C) url br entries (plugins (skills settings)) = Inr ps"
    and "w' = saved (with_plugins settings ps) (w\<lparr>disk := d\<rparr>)"
  using assms
  by (auto simp: install_skill_def install_skill_body_def handle_errors_def
           split: sum.splits prod.splits)

lemma find_plugin_Some_iff:
  "find_plugin norm c ps = Inr (Some i) \<longleftrightarrow>
     i < length ps \<and> norm (name (ps ! i)) = Inr c \<and>
     (\<forall>j<i. \<exists>n. norm (name (ps ! j)) = Inr n \<and> n \<noteq> c)"
proof
  assume "find_plugin norm c ps = Inr (Some i)"
  then show "i < length ps \<and> norm (name (ps ! i)) = Inr c \<and>
     (\<forall>j<i. \<exists>n. norm (name (ps ! j)) = Inr n \<and> n \<noteq> c)"
    by (rule find_plugin_Some)
next
  assume "i < length ps \<and> norm (name (ps ! i)) = Inr c \<and>
     (\<forall>j<i. \<exists>n. norm (name (ps ! j)) = Inr n \<and> n \<noteq> c)"
  then show "find_plugin norm c ps = Inr (Some i)"
  proof (induction ps arbitrary: i)
    case Nil
    then show ?case by simp
  next
    case (Cons p ps)
    show ?case
    proof (cases i)
      case 0
      with Cons.prems show ?thesis by simp
    next
      case (Suc k)
      with Cons.prems have head: "\<exists>n. norm (name p) = Inr n \<and> n \<noteq> c"
        by auto
      from Suc Cons.prems have "k < length ps \<and> norm (name (ps ! k)) = Inr c \<and>
          (\<forall>j<k. \<exists>n. norm (name (ps ! j)) = Inr n \<and> n \<noteq> c)"
        by auto
      from Cons.IH [OF this] head Suc show ?thesis by auto
    qed
  qed
qed

lemma record_entry_nth_name:
  assumes "record_entry norm url br entry ps = Inr qs" and "j < length ps"
  shows "j < length qs \<and> name (qs ! j) = name (ps ! j)"
  using assms(1)
proof (cases rule: record_entry_cases)
  case (found k)
  with assms(2) show ?thesis
    by (cases "k = j") simp_all
next
  case appended
  with assms(2) show ?thesis
    by (simp add: nth_append)
qed

lemma record_entry_find_back:
  assumes "record_entry norm url br entry ps = Inr qs"
    and "i < length ps"
    and "find_plugin norm c qs = Inr (Some i)"
  shows "find_plugin norm c ps = Inr (Some i)"
proof -
  have names: "name (qs ! j) = name (ps ! j)" if "j \<le> i" for j
    using record_entry_nth_name [OF assms(1), of j] that assms(2) by simp
  from assms(3) have "norm (name (qs ! i)) = Inr c"
    and "\<forall>j<i. \<exists>n. norm (name (qs ! j)) = Inr n \<and> n \<noteq> c"
    by (simp_all add: find_plugin_Some_iff)
  with names assms(2) show ?thesis
    by (simp add: find_plugin_Some_iff)
qed

lemma record_entry_other:
  assumes "record_entry norm url br entry ps = Inr qs"
    and "i < length ps"
    and "find_plugin norm (name_canonical entry) ps \<noteq> Inr (Some i)"
  shows "qs ! i = ps ! i"
  using assms(1)
proof (cases rule: record_entry_cases)
  case (found k)
  with assms(3) have "k \<noteq> i" by auto
  with found(2) show ?thesis by simp
next
  case appended
  with assms(2) show ?thesis by (simp add: nth_append)
qed

lemma record_entries_untouched:
  assumes "record_entries norm url br entries ps = Inr ps'"
    and "i < length ps"
    and "\<forall>e\<in>set entries. find_plugin norm (name_canonical e) ps \<noteq> Inr (Some i)"
  shows "ps' ! i = ps ! i"
  using assms
proof (induction entries arbitrary: ps)
  case Nil
  then show ?case by simp
next
  case (Cons e entries)
  from Cons.prems(1) obtain qs where qs: "record_entry norm url br e ps = Inr qs"
      "record_entries norm url br entries qs = Inr ps'"
    by (auto split: sum.splits)
  from record_entry_other [OF qs(1) Cons.prems(2)] Cons.prems(3)
  have same: "qs ! i = ps ! i" by simp
  from record_entry_nth_name [OF qs(1) Cons.prems(2)] have len: "i < length qs" by simp
  have "\<forall>e'\<in>set entries. find_plugin norm (name_canonical e') qs \<noteq> Inr (Some i)"
    using record_entry_find_back [OF qs(1) Cons.prems(2)] Cons.prems(3) by auto
  from Cons.IH [OF qs(2) len this] same show ?case by simp
qed

lemma record_entries_exact:
  assumes "record_entries norm url br entries ps = Inr ps'"
    and "find_plugin norm c ps = Inr (Some i)"
    and "\<exists>e\<in>set entries. name_canonical e = c"
  shows "ps' ! i
           = (ps ! i)\<lparr>git_url := url, branch := br,
                       installed_path :=
                         entry_installed_path
                           (last (filter (\<lambda>e'. name_canonical e' = c) entries)),
                       enabled := True\<rparr>"
  using assms(1,2,3)
proof (induction entries arbitrary: ps)
  case Nil
  then show ?case by simp
next
  case (Cons e' entries)
  from Cons.prems(1) obtain qs where qs: "record_entry norm url br e' ps = Inr qs"
      "record_entries norm url br entries qs = Inr ps'"
    by (auto split: sum.splits)
  from find_plugin_Some [OF Cons.prems(2)]
  have i: "i < length ps" "norm (name (ps ! i)) = Inr c" by simp_all
  from record_entry_index [OF qs(1) Cons.prems(2)]
  have idx: "find_plugin norm c qs = Inr (Some i)" .
  from find_plugin_Some [OF idx]
  have iq: "i < length qs" "norm (name (qs ! i)) = Inr c" by simp_all
  show ?case
  proof (cases "name_canonical e' = c")
    case True
    with Cons.prems(2) qs(1)
    have step: "qs ! i = (ps ! i)\<lparr>git_url := url, branch := br,
                       installed_path := entry_installed_path e', enabled := True\<rparr>"
      using i(1) by (auto simp: record_entry_found)
    show ?thesis
    proof (cases "\<exists>e''\<in>set entries. name_canonical e'' = c")
      case later: True
      then have nonempty: "filter (\<lambda>e'. name_canonical e' = c) entries \<noteq> []"
        by (auto simp: filter_empty_conv)
      from Cons.IH [OF qs(2) idx later] step nonempty True
      show ?thesis by simp
    next
      case False
      then have none: "filter (\<lambda>e'. name_canonical e' = c) entries = []"
        by (auto simp: filter_empty_conv)
      have "\<forall>x\<in>set entries. find_plugin norm (name_canonical x) qs \<noteq> Inr (Some i)"
      proof
        fix x
        assume x: "x \<in> set entries"
        show "find_plugin norm (name_canonical x) qs \<noteq> Inr (Some i)"
        proof
          assume "find_plugin norm (name_canonical x) qs = Inr (Some i)"
          from find_plugin_Some [OF this] iq(2) have "name_canonical x = c" by simp
          with x False show False by blast
        qed
      qed
      from record_entries_untouched [OF qs(2) iq(1) this] step none True
      show ?thesis by simp
    qed
  next
    case False
    with Cons.prems(3) have mem: "\<exists>e\<in>set entries. name_canonical e = c" by auto
    have "find_plugin norm (name_canonical e') ps \<noteq> Inr (Some i)"
    proof
      assume "find_plugin norm (name_canonical e') ps = Inr (Some i)"
      from find_plugin_Some [OF this] i(2) have "name_canonical e' = c" by simp
      with False show False by simp
    qed
    from record_entry_other [OF qs(1) i(1) this] have same: "qs ! i = ps ! i" .
    from Cons.IH [OF qs(2) idx mem] same False show ?thesis by simp
  qed
qed

lemma record_entry_canonical_names_mono:
  assumes "record_entry norm url br entry ps = Inr qs"
  shows "set (canonical_names norm ps) \<subseteq> set (canonical_names norm qs)"
  using assms
proof (cases rule: record_entry_cases)
  case (found i)
  then show ?thesis
    by (simp add: canonical_names_cong [OF map_name_update])
next
  case appended
  then show ?thesis
    by (simp add: canonical_names_append)
qed

lemma length_filter_mono:
  "(\<And>x. x \<in> set xs \<Longrightarrow> P x \<Longrightarrow> Q x) \<Longrightarrow> length (filter P xs) \<le> length (filter Q xs)"
  by (induction xs) auto

lemma record_entries_length:
  assumes "record_entries norm url br entries ps = Inr ps'"
  shows "length ps \<le> length ps' \<and>
         length ps' \<le> length ps
           + length (filter (\<lambda>e. name_canonical e \<notin> set (canonical_names norm ps)) entries) \<and>
         take (length ps) (map name ps') = map name ps"
  using assms
proof (induction entries arbitrary: ps)
  case Nil
  then show ?case by simp
next
  case (Cons e entries)
  from Cons.prems(1) obtain qs where qs: "record_entry norm url br e ps = Inr qs"
      "record_entries norm url br entries qs = Inr ps'"
    by (auto split: sum.splits)
  note IH = Cons.IH [OF qs(2)]
  from record_entry_canonical_names_mono [OF qs(1)]
  have mono: "length (filter (\<lambda>e. name_canonical e \<notin> set (canonical_names norm qs)) entries)
                \<le> length (filter (\<lambda>e. name_canonical e \<notin> set (canonical_names norm ps)) entries)"
    by (intro length_filter_mono) auto
  from qs(1) have step: "length ps \<le> length qs \<and>
      length qs \<le> length ps + (if name_canonical e \<notin> set (canonical_names norm ps) then 1 else 0) \<and>
      take (length ps) (map name qs) = map name ps"
  proof (cases rule: record_entry_cases)
    case (found i)
    then show ?thesis by (simp add: map_name_update)
  next
    case appended
    from find_plugin_None [OF appended(1)]
    have "name_canonical e \<notin> set (canonical_names norm ps)"
      by (auto simp: set_canonical_names)
    with appended(2) show ?thesis by simp
  qed
  have "take (length ps) (map name ps') = take (length ps) (take (length qs) (map name ps'))"
    using step by (simp add: min_def)
  also have "\<dots> = take (length ps) (map name qs)"
    using IH by simp
  also have "\<dots> = map name ps"
    using step by simp
  finally have prefix: "take (length ps) (map name ps') = map name ps" .
  from IH step mono prefix show ?case
    by (auto split: if_splits)
qed

lemma record_entries_appended:
  assumes "record_entries norm url br entries ps = Inr ps'"
    and "length ps \<le> j" and "j < length ps'"
  shows "\<exists>e\<in>set entries. name (ps' ! j) = name_canonical e \<and>
           name_canonical e \<notin> set (canonical_names norm ps)"
  using assms
proof (induction entries arbitrary: ps)
  case Nil
  then show ?case by simp
next
  case (Cons e entries)
  from Cons.prems(1) obtain qs where qs: "record_entry norm url br e ps = Inr qs"
      "record_entries norm url br entries qs = Inr ps'"
    by (auto split: sum.splits)
  note mono = record_entry_canonical_names_mono [OF qs(1)]
  show ?case
  proof (cases "j < length qs")
    case True
    from qs(1) have here: "name (qs ! j) = name_canonical e \<and>
        name_canonical e \<notin> set (canonical_names norm ps)"
    proof (cases rule: record_entry_cases)
      case (found i)
      with True Cons.prems(2) show ?thesis by simp
    next
      case appended
      from find_plugin_None [OF appended(1)]
      have "name_canonical e \<notin> set (canonical_names norm ps)"
        by (auto simp: set_canonical_names)
      moreover from appended(2) True Cons.prems(2) have "j = length ps" by simp
      ultimately show ?thesis using appended(2) by simp
    qed
    from record_entries_length [OF qs(2)]
    have "take (length qs) (map name ps') = map name qs" by simp
    then have "take (length qs) (map name ps') ! j = map name qs ! j" by simp
    with True Cons.prems(3) have "name (ps' ! j) = name (qs ! j)" by simp
    with here show ?thesis by simp
  next
    case False
    then have "length qs \<le> j" by simp
    from Cons.IH [OF qs(2) this Cons.prems(3)] mono show ?thesis by auto
  qed
qed

section \<open>Facts about enable, disable and remove\<close>

lemma disable_skill_unloadable:
  "load_config (files w) get_config_path = Inl e \<Longrightarrow> snd (disable_skill C nm w) = w"
  by (simp add: disable_skill_def disable_skill_body_def handle_errors_def)

lemma enable_skill_unloadable:
  "load_config (files w) get_config_path = Inl e \<Longrightarrow> snd (enable_skill C nm w) = w"
  by (simp add: enable_skill_def enable_skill_body_def handle_errors_def)

lemma disable_skill_world:
  assumes "load_config (files w) get_config_path = Inr settings"
  shows "snd (disable_skill C nm w) = w \<or>
         (\<exists>ps. snd (disable_skill C nm w) = saved (with_plugins settings ps) w) \<or>
         (\<exists>c. normalize_skill_name C nm = Inr c \<and>
              snd (disable_skill C nm w)
                = saved (with_disabled_bundled settings
                           (disabled_bundled (skills settings) @ [c])) w)"
  using assms
  by (auto simp: disable_skill_def disable_skill_body_def handle_errors_def
           split: sum.splits option.splits)

lemma enable_skill_world:
  assumes "load_config (files w) get_config_path = Inr settings"
  shows "snd (enable_skill C nm w) = w \<or>
         (\<exists>ps. snd (enable_skill C nm w) = saved (with_plugins settings ps) w) \<or>
         (\<exists>c ds. drop_canonical (normalize_skill_name C) c (\<lambda>s. s)
                    (disabled_bundled (skills settings)) = Inr ds \<and>
              snd (enable_skill C nm w) = saved (with_disabled_bundled settings ds) w)"
  using assms
  by (auto simp: enable_skill_def enable_skill_body_def handle_errors_def
           split: sum.splits option.splits)

lemma disable_skill_appends:
  assumes "load_config (files w) get_config_path = Inr settings"
    and "normalize_skill_name C nm = Inr c"
    and "find_plugin (normalize_skill_name C) c (plugins (skills settings)) = Inr None"
    and "\<forall>s\<in>set (disabled_bundled (skills settings)). normalize_skill_name C s = Inr s"
    and "c \<notin> set (disabled_bundled (skills settings))"
  shows "disable_skill C nm w
           = (Inr (), saved (with_disabled_bundled settings
                               (disabled_bundled (skills settings) @ [c])) w)"
  using assms(1,2,3,5) normalize_all_fixed [OF assms(4)]
  by (simp add: disable_skill_def disable_skill_body_def handle_errors_def)

lemma remove_skill_keep_files_disk:
  "disk (snd (remove_skill C nm True confirm w)) = disk w"
  by (auto simp: remove_skill_def remove_skill_body_def handle_errors_def disk_saved
           split: sum.splits option.splits)

lemma update_skill_found:
  assumes "load_config (files w) get_config_path = Inr settings"
    and "normalize_skill_name C nm = Inr c"
    and "find_plugin (normalize_skill_name C) c (plugins (skills settings)) = Inr (Some i)"
  shows "update_skill C nm w
           = (case manager_update C c (disk w) of
                (Inl e, d) \<Rightarrow> (Inl (TyperExit 1), w\<lparr>disk := d\<rparr>)
              | (Inr updated_path, d) \<Rightarrow> (Inr (), w\<lparr>disk := d\<rparr>))"
  using assms
  by (simp add: update_skill_def update_skill_body_def handle_errors_def
           split: prod.splits sum.splits)

lemma remove_skill_found:
  assumes "load_config (files w) get_config_path = Inr settings"
    and "normalize_skill_name C nm = Inr c"
    and "\<forall>p\<in>set (plugins (skills settings)). \<exists>n. normalize_skill_name C (name p) = Inr n"
    and "find_plugin (normalize_skill_name C) c (plugins (skills settings)) = Inr (Some i)"
  shows "remove_skill C nm True True w
           = (Inr (),
              saved (with_plugins settings
                       (filter (\<lambda>p. normalize_skill_name C (name p) \<noteq> Inr c)
                          (plugins (skills settings)))) w)"
  using assms(1,2,4) drop_canonical_total [OF assms(3), of c]
  by (simp add: remove_skill_def remove_skill_body_def handle_errors_def)

lemma find_plugin_by_form:
  assumes "\<forall>p\<in>set ps. \<exists>n. norm (name p) = Inr n"
    and "\<exists>p\<in>set ps. norm (name p) = Inr c"
  shows "\<exists>i. find_plugin norm c ps = Inr (Some i)"
proof -
  from assms(2) have "c \<in> set (canonical_names norm ps)"
    by (auto simp: set_canonical_names)
  with assms(1) show ?thesis
    by (rule find_plugin_present)
qed

text \<open>
  The part of the invariant of \<open>disabled_bundled\<close> that the two commands keep: canonical
  names only, nothing added by \<open>enable_skill\<close>, and nothing added by \<open>disable_skill\<close> but
  the canonical form of its argument.
\<close>

lemma disabled_bundled_stays_canonical:
  assumes idem: "\<forall>x c. normalize_skill_name C x = Inr c \<longrightarrow> normalize_skill_name C c = Inr c"
    and inv: "\<forall>s\<in>set (persisted_disabled_bundled w). normalize_skill_name C s = Inr s"
  shows "(\<forall>s\<in>set (persisted_disabled_bundled (snd (disable_skill C nm w))).
            normalize_skill_name C s = Inr s) \<and>
         (\<forall>s\<in>set (persisted_disabled_bundled (snd (enable_skill C nm w))).
            normalize_skill_name C s = Inr s) \<and>
         set (persisted_disabled_bundled (snd (enable_skill C nm w)))
           \<subseteq> set (persisted_disabled_bundled w) \<and>
         set (persisted_disabled_bundled (snd (disable_skill C nm w)))
           \<subseteq> set (persisted_disabled_bundled w) \<union> {c. normalize_skill_name C nm = Inr c} \<and>
         (\<forall>c. files w get_config_path \<noteq> Malformed \<and>
              normalize_skill_name C nm = Inr c \<and>
              find_plugin (normalize_skill_name C) c (persisted_plugins w) = Inr None \<and>
              c \<notin> set (persisted_disabled_bundled w) \<longrightarrow>
              persisted_disabled_bundled (snd (disable_skill C nm w))
                = persisted_disabled_bundled w @ [c])"
proof (cases "load_config (files w) get_config_path")
  case (Inl e)
  then have "files w get_config_path = Malformed"
    by (simp add: load_config_def split: stored.splits)
  with inv disable_skill_unloadable [OF Inl] enable_skill_unloadable [OF Inl]
  show ?thesis by simp
next
  case (Inr settings)
  have before: "persisted_disabled_bundled w = disabled_bundled (skills settings)"
    "persisted_plugins w = plugins (skills settings)"
    by (simp_all add: persisted_disabled_bundled_def persisted_plugins_def Inr)
  have unchanged: "persisted_disabled_bundled (saved (with_plugins settings ps) w)
                     = persisted_disabled_bundled w" for ps
    by (simp add: persisted_disabled_saved_plugins before)
  have dis: "set (persisted_disabled_bundled (snd (disable_skill C nm w)))
               \<subseteq> set (persisted_disabled_bundled w) \<union> {c. normalize_skill_name C nm = Inr c}"
    using disable_skill_world [OF Inr, of C nm]
    by (auto simp: unchanged persisted_disabled_saved before)
  have en: "set (persisted_disabled_bundled (snd (enable_skill C nm w)))
              \<subseteq> set (persisted_disabled_bundled w)"
    using enable_skill_world [OF Inr, of C nm]
    by (auto simp: unchanged persisted_disabled_saved before dest!: drop_canonical_filter)
  have app: "persisted_disabled_bundled (snd (disable_skill C nm w))
               = persisted_disabled_bundled w @ [c]"
    if "normalize_skill_name C nm = Inr c"
      and "find_plugin (normalize_skill_name C) c (persisted_plugins w) = Inr None"
      and "c \<notin> set (persisted_disabled_bundled w)" for c
    using disable_skill_appends [OF Inr that(1)] that(2,3) inv
    by (simp add: before persisted_disabled_saved)
  from dis idem inv
  have "\<forall>s\<in>set (persisted_disabled_bundled (snd (disable_skill C nm w))).
          normalize_skill_name C s = Inr s"
    by blast
  moreover from en inv
  have "\<forall>s\<in>set (persisted_disabled_bundled (snd (enable_skill C nm w))).
          normalize_skill_name C s = Inr s"
    by blast
  ultimately show ?thesis
    using dis en app by blast
qed

section \<open>Facts about the example installation\<close>

lemma example_load:
  "load_config (files example_world) get_config_path = Inr example_settings"
  by (simp add: example_world_def example_files_def load_after_save)

lemma fresh_load: "load_config (files fresh_world) get_config_path = Inr get_default_config"
  by (simp add: fresh_world_def no_files_def load_config_def)

lemma fresh_persisted:
  "persisted_disabled_bundled fresh_world = []" "persisted_plugins fresh_world = []"
  by (simp_all add: persisted_disabled_bundled_def persisted_plugins_def fresh_load
        get_default_config_def)

lemma example_world_disk: "disk example_world = example_disk"
  by (simp add: example_world_def)

lemma example_normalize: "normalize_skill_name example_collaborators = canonicalize 64"
  by (simp add: example_collaborators_def)

lemma example_persisted_plugins: "persisted_plugins example_world = [example_plugin]"
  by (simp add: persisted_plugins_def example_load example_settings_def)

lemma canonicalize_missing_skill: "canonicalize 64 ''missing-skill'' = Inr ''missing-skill''"
  by (simp add: canonicalize_def lower_char_def is_separator_def safe_char_def)

lemma canonicalize_my_skill: "canonicalize 64 ''my-skill'' = Inr ''my-skill''"
  by (simp add: canonicalize_def lower_char_def is_separator_def safe_char_def)

lemma canonicalize_my_skill_raw:
  "canonicalize 64 ''My_Skill'' = Inr ''my-skill''" "canonicalize 64 ''my skill'' = Inr ''my-skill''"
  by (simp_all add: canonicalize_def lower_char_def is_separator_def safe_char_def)

lemma canonicalize_cool_skill: "canonicalize 64 ''my-cool-skill'' = Inr ''my-cool-skill''"
  by (simp add: canonicalize_def lower_char_def is_separator_def safe_char_def)

lemma canonicalize_ghost_skill: "canonicalize 64 ''Ghost Skill'' = Inr ''ghost-skill''"
  by (simp add: canonicalize_def lower_char_def is_separator_def safe_char_def)

lemma example_find_my_skill:
  "find_plugin (canonicalize 64) ''my-skill'' [example_plugin] = Inr (Some 0)"
  by (simp add: example_plugin_def canonicalize_my_skill)

lemma example_manager_install:
  "manager_install example_collaborators url skill_name br True (disk example_world)
     = (Inr [example_entry], (''/managed/my-skill'', []) # example_disk)"
  by (simp add: example_collaborators_def example_install_def example_world_disk)

lemma example_install_result:
  "install_skill example_collaborators ''https://host/repo.git'' None ''main'' example_world
     = (Inr (),
        saved (with_plugins example_settings
                 [example_plugin\<lparr>git_url := ''https://host/repo.git'', branch := ''main'',
                                  installed_path := ''/managed/my-skill'', enabled := True\<rparr>])
          (example_world\<lparr>disk := (''/managed/my-skill'', []) # example_disk\<rparr>))"
  by (simp add: install_skill_def install_skill_body_def handle_errors_def example_load
        example_manager_install example_normalize record_entry_def example_entry_def
        example_settings_def example_plugin_def canonicalize_my_skill)

lemma two_plugin_load:
  "load_config (files two_plugin_world) get_config_path = Inr two_plugin_settings"
  by (simp add: two_plugin_world_def load_after_save)

lemma two_plugin_persisted:
  "persisted_plugins two_plugin_world = [kept_plugin, example_plugin]"
  by (simp add: persisted_plugins_def two_plugin_load two_plugin_settings_def with_plugins_def)

lemma canonicalize_keep_me:
  "canonicalize 64 ''Keep_Me'' = Inr ''keep-me''" "canonicalize 64 ''keep me'' = Inr ''keep-me''"
  "canonicalize 64 ''KEEP ME'' = Inr ''keep-me''" "canonicalize 64 ''keep-me'' = Inr ''keep-me''"
  by (simp_all add: canonicalize_def lower_char_def is_separator_def safe_char_def)

lemma canonicalize_new_skill: "canonicalize 64 ''new-skill'' = Inr ''new-skill''"
  by (simp add: canonicalize_def lower_char_def is_separator_def safe_char_def)

lemma monorepo_normalize: "normalize_skill_name monorepo_collaborators = canonicalize 64"
  by (simp add: monorepo_collaborators_def example_collaborators_def)

lemma monorepo_manager_install:
  "manager_install monorepo_collaborators url skill_name br True (disk two_plugin_world)
     = (Inr [example_entry, second_entry],
        (''/managed/new-skill'', []) # (''/managed/my-skill'', []) # disk two_plugin_world)"
  by (simp add: monorepo_collaborators_def monorepo_install_def)

lemma two_plugin_names:
  "canonicalize 64 (name kept_plugin) = Inr ''keep-me''"
  "canonicalize 64 (name example_plugin) = Inr ''my-skill''"
  by (simp_all add: kept_plugin_def example_plugin_def canonicalize_keep_me canonicalize_my_skill)

lemma two_plugin_find:
  "find_plugin (canonicalize 64) ''my-skill'' [kept_plugin, example_plugin] = Inr (Some 1)"
  "find_plugin (canonicalize 64) ''new-skill'' [kept_plugin, example_plugin] = Inr None"
  "find_plugin (canonicalize 64) ''keep-me'' [kept_plugin, example_plugin] = Inr (Some 0)"
  by (simp_all add: two_plugin_names)

lemma monorepo_install_result:
  "install_skill monorepo_collaborators ''https://host/repo.git'' None ''main'' two_plugin_world
     = (Inr (),
        saved (with_plugins two_plugin_settings
                 [kept_plugin,
                  example_plugin\<lparr>git_url := ''https://host/repo.git'', branch := ''main'',
                                  installed_path := ''/managed/my-skill'', enabled := True\<rparr>,
                  \<lparr>name = ''new-skill'', git_url = ''https://host/repo.git'', branch = ''main'',
                   enabled = True, installed_path = ''/managed/new-skill''\<rparr>])
          (two_plugin_world
             \<lparr>disk := (''/managed/new-skill'', []) # (''/managed/my-skill'', [])
                       # disk two_plugin_world\<rparr>))"
proof -
  have plugins: "plugins (skills two_plugin_settings) = [kept_plugin, example_plugin]"
    by (simp add: two_plugin_settings_def with_plugins_def)
  have first: "record_entry (canonicalize 64) ''https://host/repo.git'' ''main'' example_entry
                 [kept_plugin, example_plugin]
      = Inr [kept_plugin,
             example_plugin\<lparr>git_url := ''https://host/repo.git'', branch := ''main'',
                             installed_path := ''/managed/my-skill'', enabled := True\<rparr>]"
    by (simp add: record_entry_def example_entry_def two_plugin_find del: find_plugin.simps)
  have second: "record_entry (canonicalize 64) ''https://host/repo.git'' ''main'' second_entry
                 [kept_plugin,
                  example_plugin\<lparr>git_url := ''https://host/repo.git'', branch := ''main'',
                                  installed_path := ''/managed/my-skill'', enabled := True\<rparr>]
      = Inr [kept_plugin,
             example_plugin\<lparr>git_url := ''https://host/repo.git'', branch := ''main'',
                             installed_path := ''/managed/my-skill'', enabled := True\<rparr>,
             \<lparr>name = ''new-skill'', git_url = ''https://host/repo.git'', branch = ''main'',
              enabled = True, installed_path = ''/managed/new-skill''\<rparr>]"
    by (simp add: record_entry_def second_entry_def two_plugin_names)
  show ?thesis
    by (simp add: install_skill_def install_skill_body_def handle_errors_def two_plugin_load
          monorepo_manager_install monorepo_normalize plugins first second
          del: find_plugin.simps)
qed

section \<open>Precedence of the configuration layers\<close>

text \<open>
  C1. For every field: a value in the file wins over the environment; a field unset in
  the file takes the value of the environment; a field unset in both takes the default; a
  CLI override, when present, wins over all three, and without one the result is that of
  file, environment and defaults.
\<close>

theorem resolve_precedence:
  "(file field = Some a \<longrightarrow> from_combined file env dflt field = a) \<and>
   (file field = None \<and> env field = Some b \<longrightarrow> from_combined file env dflt field = b) \<and>
   (file field = None \<and> env field = None \<longrightarrow> from_combined file env dflt field = dflt field) \<and>
   (cli field = Some c \<longrightarrow> resolve cli file env dflt field = c) \<and>
   (cli field = None \<longrightarrow> resolve cli file env dflt field = from_combined file env dflt field)"
  by (simp add: from_combined_def resolve_def)

theorem resolve_precedence_witness:
  "from_combined example_file_layer example_env_layer example_defaults ''openai_api_key''
     = ''file-key'' \<and>
   from_combined example_file_layer example_env_layer example_defaults ''openai_model''
     = ''gpt-4o'' \<and>
   from_combined example_file_layer example_env_layer example_defaults ''anthropic_model''
     = ''claude-sonnet-4-5-20250929'' \<and>
   resolve example_cli_layer example_file_layer example_env_layer example_defaults
     ''openai_api_key'' = ''cli-key'' \<and>
   resolve example_cli_layer example_file_layer example_env_layer example_defaults
     ''openai_model'' = ''gpt-4o''"
proof -
  have f: "example_file_layer ''openai_api_key'' = Some ''file-key''"
    "example_file_layer ''openai_model'' = None" "example_file_layer ''anthropic_model'' = None"
    by (simp_all add: example_file_layer_def)
  have e: "example_env_layer ''openai_model'' = Some ''gpt-4o''"
    "example_env_layer ''anthropic_model'' = None"
    by (simp_all add: example_env_layer_def)
  have c: "example_cli_layer ''openai_api_key'' = Some ''cli-key''"
    "example_cli_layer ''openai_model'' = None"
    by (simp_all add: example_cli_layer_def)
  have d: "example_defaults ''anthropic_model'' = ''claude-sonnet-4-5-20250929''"
    by (simp add: example_defaults_def)
  show ?thesis
    using resolve_precedence [of example_file_layer "''openai_api_key''" "''file-key''"
        example_env_layer example_defaults "''x''" example_cli_layer "''cli-key''"]
      resolve_precedence [of example_file_layer "''openai_model''" "''x''"
        example_env_layer example_defaults "''gpt-4o''" example_cli_layer "''x''"]
      resolve_precedence [of example_file_layer "''anthropic_model''" "''x''"
        example_env_layer example_defaults "''x''" example_cli_layer "''x''"]
    by (simp add: f e c d)
qed

section \<open>Round trip of the settings document\<close>

text \<open>
  C2. Loading a path right after saving a settings document to it returns that document,
  whatever it holds, the fields the schema does not know (\<open>other_fields\<close>) included, and
  whatever was stored before.
\<close>

theorem save_load_round_trip:
  "load_config (save_config settings p fs) p = Inr settings"
  by (simp add: load_config_def save_config_def Let_def temp_path_neq)

theorem save_load_round_trip_witness:
  "load_config (save_config example_settings get_config_path no_files) get_config_path
     = Inr example_settings
   \<and> other_fields example_settings = [(''future_field'', ''kept'')]"
  using save_load_round_trip [of example_settings get_config_path no_files]
  by (simp add: example_settings_def)

section \<open>list\_skills on a configured directory that does not exist\<close>

text \<open>
  C3, at the input of the repository's test. The settings name a bundled directory
  that does not exist and the auto-detected directory holds one skill: \<open>list_skills\<close>
  does not fall back to auto-detection, and the listing has no bundled row. On the same
  directories with no bundled directory configured, the listing has the skill.
\<close>

theorem list_skills_stale_bundled_dir:
  "list_skills example_collaborators example_world
     = Inr \<lparr>bundled_table = [], plugin_table = [(''my-skill'', False)],
            enabled_bundled = 0, total_bundled = 0, enabled_plugins = 0, total_plugins = 1\<rparr> \<and>
   scan_skill_directory example_collaborators (disk example_world)
     (auto_bundled_dir example_collaborators) = [''/repo/skills/core/test-skill''] \<and>
   list_skills example_collaborators unconfigured_world
     = Inr \<lparr>bundled_table = [(''test-skill'', True)], plugin_table = [(''my-skill'', False)],
            enabled_bundled = 1, total_bundled = 1, enabled_plugins = 0, total_plugins = 1\<rparr>"
proof -
  have stale: "list_skills example_collaborators example_world
     = Inr \<lparr>bundled_table = [], plugin_table = [(''my-skill'', False)],
            enabled_bundled = 0, total_bundled = 0, enabled_plugins = 0, total_plugins = 1\<rparr>"
    by (simp add: list_skills_def list_skills_body_def scanned_bundled_skills_def
          bundled_path_of_def example_load example_world_disk example_collaborators_def
          example_settings_def example_plugin_def example_exists_def example_scan_def
          example_disk_def)
  have found: "scan_skill_directory example_collaborators (disk example_world)
     (auto_bundled_dir example_collaborators) = [''/repo/skills/core/test-skill'']"
    by (simp add: example_world_disk example_collaborators_def example_scan_def
          example_disk_def)
  have load: "load_config (files unconfigured_world) get_config_path = Inr unconfigured_settings"
    by (simp add: unconfigured_world_def load_after_save)
  have scanned: "scanned_bundled_skills example_collaborators (disk unconfigured_world)
                   unconfigured_settings = [''/repo/skills/core/test-skill'']"
    by (simp add: scanned_bundled_skills_def bundled_path_of_def unconfigured_world_def
          unconfigured_settings_def example_collaborators_def example_exists_def
          example_scan_def example_disk_def)
  have shown: "relative_location example_collaborators ''/repo/skills/core/test-skill''
                 (bundled_path_of example_collaborators unconfigured_settings)
                 = Inr ''core/test-skill''"
    by (simp add: bundled_path_of_def unconfigured_settings_def example_settings_def
          example_collaborators_def example_location_def path_name_def)
  have nm: "path_name ''/repo/skills/core/test-skill'' = ''test-skill''"
    by (simp add: path_name_def)
  have canonical: "canonicalize 64 ''test-skill'' = Inr ''test-skill''"
    by (simp add: canonicalize_def lower_char_def is_separator_def safe_char_def)
  have auto: "list_skills example_collaborators unconfigured_world
     = Inr \<lparr>bundled_table = [(''test-skill'', True)], plugin_table = [(''my-skill'', False)],
            enabled_bundled = 1, total_bundled = 1, enabled_plugins = 0, total_plugins = 1\<rparr>"
  proof -
    have on_record: "disabled_bundled (skills unconfigured_settings) = []"
      "plugins (skills unconfigured_settings) = [example_plugin]"
      by (simp_all add: unconfigured_settings_def example_settings_def)
    show ?thesis
      by (simp add: list_skills_def list_skills_body_def load scanned shown nm canonical
            example_normalize on_record example_plugin_def)
  qed
  from stale found auto show ?thesis
    by simp
qed

section \<open>install\_skill keeps one entry per canonical name\<close>

text \<open>
  C4. After a successful \<open>install_skill\<close>, \<open>entries\<close> being what the manager returned:
  a single discovered unit whose canonical name is found on record updates that entry in
  place (\<open>git_url\<close>, \<open>branch\<close>, \<open>installed_path\<close>, \<open>enabled\<close>) and the list is otherwise the
  one before; when every discovered unit's canonical name is on record, the names on
  record and their order are unchanged, so nothing is appended; and when the canonical
  names on record were pairwise different and the units' canonical names are canonical,
  the canonical names on record are pairwise different afterwards. For any number of
  discovered units: every unit found on record has its entry updated where it stands,
  with the given \<open>git_url\<close> and \<open>branch\<close>, \<open>enabled\<close> set, and the \<open>installed_path\<close> of the
  last unit of that canonical name; an entry that no unit finds is the one before; the
  entries on record keep their names and places; the list grows by at most the number
  of units whose canonical name was not on record, and every entry beyond the old
  length bears the canonical name of such a unit.
\<close>

theorem install_skill_idempotent_by_name:
  assumes "install_skill C url skill_name br w = (Inr (), w')"
    and "manager_install C url skill_name br True (disk w) = (Inr entries, d)"
  shows "(\<forall>e i. entries = [e] \<and>
            find_plugin (normalize_skill_name C) (name_canonical e) (persisted_plugins w)
              = Inr (Some i) \<longrightarrow>
            persisted_plugins w'
              = (persisted_plugins w)
                  [i := (persisted_plugins w ! i)
                          \<lparr>git_url := url, branch := br,
                           installed_path := entry_installed_path e, enabled := True\<rparr>]) \<and>
         ((\<forall>e\<in>set entries.
             name_canonical e \<in> set (canonical_names (normalize_skill_name C) (persisted_plugins w)))
            \<longrightarrow> map name (persisted_plugins w') = map name (persisted_plugins w)) \<and>
         (distinct (canonical_names (normalize_skill_name C) (persisted_plugins w)) \<and>
          (\<forall>e\<in>set entries.
             normalize_skill_name C (name_canonical e) = Inr (name_canonical e))
            \<longrightarrow> distinct (canonical_names (normalize_skill_name C) (persisted_plugins w'))) \<and>
         (\<forall>e\<in>set entries. \<forall>i.
            find_plugin (normalize_skill_name C) (name_canonical e) (persisted_plugins w)
              = Inr (Some i) \<longrightarrow>
            persisted_plugins w' ! i
              = (persisted_plugins w ! i)
                  \<lparr>git_url := url, branch := br,
                   installed_path :=
                     entry_installed_path
                       (last (filter (\<lambda>e'. name_canonical e' = name_canonical e) entries)),
                   enabled := True\<rparr>) \<and>
         (\<forall>i<length (persisted_plugins w).
            (\<forall>e\<in>set entries.
               find_plugin (normalize_skill_name C) (name_canonical e) (persisted_plugins w)
                 \<noteq> Inr (Some i)) \<longrightarrow>
            persisted_plugins w' ! i = persisted_plugins w ! i) \<and>
         take (length (persisted_plugins w)) (map name (persisted_plugins w'))
           = map name (persisted_plugins w) \<and>
         length (persisted_plugins w')
           \<le> length (persisted_plugins w)
             + length (filter (\<lambda>e. name_canonical e
                                   \<notin> set (canonical_names (normalize_skill_name C)
                                            (persisted_plugins w))) entries) \<and>
         (\<forall>j. length (persisted_plugins w) \<le> j \<and> j < length (persisted_plugins w') \<longrightarrow>
            (\<exists>e\<in>set entries. name (persisted_plugins w' ! j) = name_canonical e \<and>
               name_canonical e
                 \<notin> set (canonical_names (normalize_skill_name C) (persisted_plugins w))))"
proof -
  from assms obtain settings ps
    where load: "load_config (files w) get_config_path = Inr settings"
      and rec: "record_entries (normalize_skill_name C) url br entries (plugins (skills settings))
                  = Inr ps"
      and w': "w' = saved (with_plugins settings ps) (w\<lparr>disk := d\<rparr>)"
    by (rule install_skill_success)
  have before: "persisted_plugins w = plugins (skills settings)"
    by (simp add: persisted_plugins_def load)
  have after: "persisted_plugins w' = ps"
    by (simp add: w' persisted_plugins_saved)
  have one: "ps = (plugins (skills settings))
                  [i := (plugins (skills settings) ! i)
                          \<lparr>git_url := url, branch := br,
                           installed_path := entry_installed_path e, enabled := True\<rparr>]"
    if "entries = [e]"
      and "find_plugin (normalize_skill_name C) (name_canonical e) (plugins (skills settings))
             = Inr (Some i)" for e i
    using rec that by (simp add: record_entry_found)
  have names: "map name ps = map name (plugins (skills settings))"
    if "\<forall>e\<in>set entries.
          name_canonical e \<in> set (canonical_names (normalize_skill_name C) (plugins (skills settings)))"
    using rec that by (rule record_entries_present)
  have dist: "distinct (canonical_names (normalize_skill_name C) ps)"
    if "distinct (canonical_names (normalize_skill_name C) (plugins (skills settings)))"
      and "\<forall>e\<in>set entries. normalize_skill_name C (name_canonical e) = Inr (name_canonical e)"
    using rec that by (rule record_entries_distinct)
  have updated: "ps ! i
              = (plugins (skills settings) ! i)
                  \<lparr>git_url := url, branch := br,
                   installed_path :=
                     entry_installed_path
                       (last (filter (\<lambda>e'. name_canonical e' = name_canonical e) entries)),
                   enabled := True\<rparr>"
    if "e \<in> set entries"
      and "find_plugin (normalize_skill_name C) (name_canonical e) (plugins (skills settings))
             = Inr (Some i)" for e i
    using record_entries_exact [OF rec that(2)] that(1) by blast
  have untouched: "ps ! i = plugins (skills settings) ! i"
    if "i < length (plugins (skills settings))"
      and "\<forall>e\<in>set entries.
             find_plugin (normalize_skill_name C) (name_canonical e) (plugins (skills settings))
               \<noteq> Inr (Some i)" for i
    using rec that by (rule record_entries_untouched)
  have appended: "\<exists>e\<in>set entries. name (ps ! j) = name_canonical e \<and>
               name_canonical e
                 \<notin> set (canonical_names (normalize_skill_name C) (plugins (skills settings)))"
    if "length (plugins (skills settings)) \<le> j" and "j < length ps" for j
    using rec that by (rule record_entries_appended)
  note len = record_entries_length [OF rec]
  show ?thesis
    unfolding before after
    using one names dist updated untouched appended len by blast
qed

theorem install_skill_idempotent_by_name_witness:
  "map name
     (persisted_plugins
        (snd (install_skill monorepo_collaborators ''https://host/repo.git'' None ''main''
                two_plugin_world)))
     = [''Keep_Me'', ''my-skill'', ''new-skill''] \<and>
   persisted_plugins
     (snd (install_skill monorepo_collaborators ''https://host/repo.git'' None ''main''
             two_plugin_world)) ! 0
     = kept_plugin \<and>
   persisted_plugins
     (snd (install_skill monorepo_collaborators ''https://host/repo.git'' None ''main''
             two_plugin_world)) ! 1
     = example_plugin\<lparr>git_url := ''https://host/repo.git'', branch := ''main'',
                      installed_path := ''/managed/my-skill'', enabled := True\<rparr> \<and>
   distinct (canonical_names (canonicalize 64)
     (persisted_plugins
        (snd (install_skill monorepo_collaborators ''https://host/repo.git'' None ''main''
                two_plugin_world))))"
proof -
  let ?w' = "snd (install_skill monorepo_collaborators ''https://host/repo.git'' None ''main''
                    two_plugin_world)"
  let ?N = "normalize_skill_name monorepo_collaborators"
  have run: "install_skill monorepo_collaborators ''https://host/repo.git'' None ''main''
               two_plugin_world = (Inr (), ?w')"
    by (simp add: monorepo_install_result)
  note facts = install_skill_idempotent_by_name [OF run monorepo_manager_install]
  have names: "map name (persisted_plugins ?w') = [''Keep_Me'', ''my-skill'', ''new-skill'']"
    by (simp add: monorepo_install_result persisted_plugins_saved kept_plugin_def
          example_plugin_def)
  have found: "find_plugin ?N (name_canonical example_entry) (persisted_plugins two_plugin_world)
                 = Inr (Some 1)"
    by (simp add: monorepo_normalize two_plugin_persisted example_entry_def two_plugin_find
          del: find_plugin.simps)
  have "persisted_plugins ?w' ! 1
          = (persisted_plugins two_plugin_world ! 1)
              \<lparr>git_url := ''https://host/repo.git'', branch := ''main'',
               installed_path :=
                 entry_installed_path
                   (last (filter (\<lambda>e'. name_canonical e' = name_canonical example_entry)
                      [example_entry, second_entry])),
               enabled := True\<rparr>"
    using facts found by simp
  then have second: "persisted_plugins ?w' ! 1
          = example_plugin\<lparr>git_url := ''https://host/repo.git'', branch := ''main'',
                           installed_path := ''/managed/my-skill'', enabled := True\<rparr>"
    by (simp add: two_plugin_persisted example_entry_def second_entry_def)
  have others: "\<forall>e\<in>set [example_entry, second_entry].
      find_plugin ?N (name_canonical e) (persisted_plugins two_plugin_world) \<noteq> Inr (Some 0)"
    by (simp add: monorepo_normalize two_plugin_persisted example_entry_def second_entry_def
          two_plugin_find del: find_plugin.simps)
  have "0 < length (persisted_plugins two_plugin_world)"
    by (simp add: two_plugin_persisted)
  with facts others have "persisted_plugins ?w' ! 0 = persisted_plugins two_plugin_world ! 0"
    by blast
  then have first: "persisted_plugins ?w' ! 0 = kept_plugin"
    by (simp add: two_plugin_persisted)
  have canonical: "\<forall>e\<in>set [example_entry, second_entry].
      ?N (name_canonical e) = Inr (name_canonical e)"
    by (simp add: monorepo_normalize example_entry_def second_entry_def canonicalize_my_skill
          canonicalize_new_skill)
  have before: "distinct (canonical_names ?N (persisted_plugins two_plugin_world))"
    by (simp add: monorepo_normalize two_plugin_persisted two_plugin_names)
  from facts canonical before have "distinct (canonical_names ?N (persisted_plugins ?w'))"
    by blast
  then have "distinct (canonical_names (canonicalize 64) (persisted_plugins ?w'))"
    by (simp only: monorepo_normalize)
  with names first second show ?thesis
    by simp
qed

section \<open>Skill identity is the canonical name\<close>

text \<open>
  C5. Two raw names with the same canonical form are the same skill to the commands:
  \<open>update_skill\<close>, \<open>remove_skill\<close>, \<open>enable_skill\<close> and \<open>disable_skill\<close> do the same on
  both; the lookup that \<open>install_skill\<close> uses as its duplicate check gives the same answer
  on two plugin lists whose names have the same canonical forms, and what it finds has
  the canonical name asked for; recording a discovered unit depends on its canonical
  name and path, not on its raw name. The canonicalizer of the specification maps
  \<^verbatim>\<open>My Cool_Skill!!\<close> and \<^verbatim>\<open>my-cool-skill\<close> to the same canonical name, whatever the bound.
  The lookup finds exactly the first plugin whose name has the canonical form asked for.
  So, the names on record being normalisable, a raw name whose canonical form is that of
  the name of a plugin on record reaches that plugin: \<open>update_skill\<close> calls the manager
  with the canonical name and \<open>remove_skill\<close>, confirmed and keeping the files, saves the
  list without the plugins of that canonical form; and a discovered unit whose raw name
  has the canonical form of the name of a plugin on record, \<open>name_canonical\<close> being that
  form, updates a plugin of that form in place.
\<close>

theorem same_canonical_name_same_skill:
  "(normalize_skill_name C a = normalize_skill_name C b \<longrightarrow>
      update_skill C a w = update_skill C b w \<and>
      remove_skill C a keep_files confirm w = remove_skill C b keep_files confirm w \<and>
      enable_skill C a w = enable_skill C b w \<and>
      disable_skill C a w = disable_skill C b w) \<and>
   (map (\<lambda>p. norm (name p)) ps = map (\<lambda>p. norm (name p)) qs \<longrightarrow>
      find_plugin norm c ps = find_plugin norm c qs) \<and>
   (find_plugin norm c ps = Inr (Some i) \<longrightarrow> norm (name (ps ! i)) = Inr c) \<and>
   (name_canonical ea = name_canonical eb \<and> entry_installed_path ea = entry_installed_path eb \<longrightarrow>
      record_entry norm url br ea ps = record_entry norm url br eb ps) \<and>
   canonicalize max_len ''My Cool_Skill!!'' = canonicalize max_len ''my-cool-skill'' \<and>
   (find_plugin norm c ps = Inr (Some i) \<longleftrightarrow>
      i < length ps \<and> norm (name (ps ! i)) = Inr c \<and>
      (\<forall>j<i. \<exists>n. norm (name (ps ! j)) = Inr n \<and> n \<noteq> c)) \<and>
   (load_config (files w) get_config_path = Inr settings \<and>
    normalize_skill_name C a = Inr ca \<and>
    (\<forall>p\<in>set (plugins (skills settings)). \<exists>n. normalize_skill_name C (name p) = Inr n) \<and>
    (\<exists>p\<in>set (plugins (skills settings)).
       normalize_skill_name C (name p) = normalize_skill_name C a) \<longrightarrow>
      update_skill C a w
        = (case manager_update C ca (disk w) of
             (Inl e, d) \<Rightarrow> (Inl (TyperExit 1), w\<lparr>disk := d\<rparr>)
           | (Inr updated_path, d) \<Rightarrow> (Inr (), w\<lparr>disk := d\<rparr>)) \<and>
      remove_skill C a True True w
        = (Inr (),
           saved (with_plugins settings
                    (filter (\<lambda>p. normalize_skill_name C (name p) \<noteq> normalize_skill_name C a)
                       (plugins (skills settings)))) w)) \<and>
   ((\<forall>p\<in>set ps. \<exists>n. norm (name p) = Inr n) \<and>
    norm (entry_name ea) = Inr (name_canonical ea) \<and>
    (\<exists>p\<in>set ps. norm (name p) = norm (entry_name ea)) \<longrightarrow>
      (\<exists>k<length ps. norm (name (ps ! k)) = norm (entry_name ea) \<and>
         record_entry norm url br ea ps
           = Inr (ps[k := (ps ! k)\<lparr>git_url := url, branch := br,
                                   installed_path := entry_installed_path ea,
                                   enabled := True\<rparr>])))"
proof -
  have commands: "update_skill C a w = update_skill C b w \<and>
      remove_skill C a keep_files confirm w = remove_skill C b keep_files confirm w \<and>
      enable_skill C a w = enable_skill C b w \<and>
      disable_skill C a w = disable_skill C b w"
    if "normalize_skill_name C a = normalize_skill_name C b"
    unfolding update_skill_def update_skill_body_def remove_skill_def remove_skill_body_def
      enable_skill_def enable_skill_body_def disable_skill_def disable_skill_body_def that
    by simp
  have lookup: "find_plugin norm c ps = find_plugin norm c qs"
    if "map (\<lambda>p. norm (name p)) ps = map (\<lambda>p. norm (name p)) qs"
    using that by (rule find_plugin_canonical_cong)
  have found: "norm (name (ps ! i)) = Inr c" if "find_plugin norm c ps = Inr (Some i)"
    using find_plugin_Some [OF that] by simp
  have recording: "record_entry norm url br ea ps = record_entry norm url br eb ps"
    if "name_canonical ea = name_canonical eb \<and> entry_installed_path ea = entry_installed_path eb"
    using that by (auto simp: record_entry_def split: sum.splits option.splits)
  have example: "canonicalize max_len ''My Cool_Skill!!'' = canonicalize max_len ''my-cool-skill''"
    by (simp add: canonicalize_def lower_char_def is_separator_def safe_char_def)
  note complete = find_plugin_Some_iff [of norm c ps i]
  have by_raw_name: "update_skill C a w
        = (case manager_update C ca (disk w) of
             (Inl e, d) \<Rightarrow> (Inl (TyperExit 1), w\<lparr>disk := d\<rparr>)
           | (Inr updated_path, d) \<Rightarrow> (Inr (), w\<lparr>disk := d\<rparr>)) \<and>
      remove_skill C a True True w
        = (Inr (),
           saved (with_plugins settings
                    (filter (\<lambda>p. normalize_skill_name C (name p) \<noteq> normalize_skill_name C a)
                       (plugins (skills settings)))) w)"
    if load: "load_config (files w) get_config_path = Inr settings"
      and a: "normalize_skill_name C a = Inr ca"
      and valid: "\<forall>p\<in>set (plugins (skills settings)).
                    \<exists>n. normalize_skill_name C (name p) = Inr n"
      and present: "\<exists>p\<in>set (plugins (skills settings)).
                    normalize_skill_name C (name p) = normalize_skill_name C a"
  proof -
    from present a have "\<exists>p\<in>set (plugins (skills settings)).
        normalize_skill_name C (name p) = Inr ca"
      by simp
    from find_plugin_by_form [OF valid this] obtain k
      where k: "find_plugin (normalize_skill_name C) ca (plugins (skills settings))
                  = Inr (Some k)"
      by blast
    from update_skill_found [OF load a k] remove_skill_found [OF load a valid k] a
    show ?thesis by simp
  qed
  have duplicate_check: "\<exists>k<length ps. norm (name (ps ! k)) = norm (entry_name ea) \<and>
         record_entry norm url br ea ps
           = Inr (ps[k := (ps ! k)\<lparr>git_url := url, branch := br,
                                   installed_path := entry_installed_path ea,
                                   enabled := True\<rparr>])"
    if valid: "\<forall>p\<in>set ps. \<exists>n. norm (name p) = Inr n"
      and unit: "norm (entry_name ea) = Inr (name_canonical ea)"
      and present: "\<exists>p\<in>set ps. norm (name p) = norm (entry_name ea)"
  proof -
    from present unit have "\<exists>p\<in>set ps. norm (name p) = Inr (name_canonical ea)"
      by simp
    from find_plugin_by_form [OF valid this] obtain k
      where k: "find_plugin norm (name_canonical ea) ps = Inr (Some k)"
      by blast
    from find_plugin_Some [OF k] unit
    have "k < length ps" "norm (name (ps ! k)) = norm (entry_name ea)"
      by simp_all
    with record_entry_found [OF k] show ?thesis
      by blast
  qed
  from commands lookup found recording example complete by_raw_name duplicate_check
  show ?thesis
    by blast
qed

theorem same_canonical_name_same_skill_witness:
  "remove_skill example_collaborators ''My_Skill'' True True example_world
     = remove_skill example_collaborators ''my skill'' True True example_world \<and>
   disable_skill example_collaborators ''My_Skill'' example_world
     = disable_skill example_collaborators ''my skill'' example_world \<and>
   canonicalize 64 ''My Cool_Skill!!'' = Inr ''my-cool-skill'' \<and>
   update_skill example_collaborators ''keep me'' two_plugin_world = (Inr (), two_plugin_world) \<and>
   persisted_plugins
     (snd (remove_skill example_collaborators ''keep me'' True True two_plugin_world))
     = [example_plugin] \<and>
   record_entry (canonicalize 64) ''https://host/keep.git'' ''main'' kept_entry
       [kept_plugin, example_plugin]
     = Inr [kept_plugin\<lparr>git_url := ''https://host/keep.git'', branch := ''main'',
                         installed_path := ''/managed/keep-me-2'', enabled := True\<rparr>,
            example_plugin]"
proof -
  have same: "normalize_skill_name example_collaborators ''My_Skill''
                = normalize_skill_name example_collaborators ''my skill''"
    by (simp add: example_normalize canonicalize_my_skill_raw)
  note commands = same_canonical_name_same_skill
      [where C = example_collaborators and a = "''My_Skill''" and b = "''my skill''"
         and w = example_world and keep_files = True and confirm = True, THEN conjunct1]
  from commands same
  have congruent: "remove_skill example_collaborators ''My_Skill'' True True example_world
          = remove_skill example_collaborators ''my skill'' True True example_world"
    "disable_skill example_collaborators ''My_Skill'' example_world
          = disable_skill example_collaborators ''my skill'' example_world"
    by blast+
  have "canonicalize 64 ''My Cool_Skill!!'' = canonicalize 64 ''my-cool-skill''"
    by (rule same_canonical_name_same_skill
          [where max_len = 64, THEN conjunct2, THEN conjunct2, THEN conjunct2, THEN conjunct2,
            THEN conjunct1])
  then have example: "canonicalize 64 ''My Cool_Skill!!'' = Inr ''my-cool-skill''"
    by (simp only: canonicalize_cool_skill)
  have plugins: "plugins (skills two_plugin_settings) = [kept_plugin, example_plugin]"
    by (simp add: two_plugin_settings_def with_plugins_def)
  have raw: "normalize_skill_name example_collaborators ''keep me'' = Inr ''keep-me''"
    by (simp add: example_normalize canonicalize_keep_me)
  have valid: "\<forall>p\<in>set (plugins (skills two_plugin_settings)).
                 \<exists>n. normalize_skill_name example_collaborators (name p) = Inr n"
    by (simp add: plugins example_normalize two_plugin_names)
  have present: "\<exists>p\<in>set (plugins (skills two_plugin_settings)).
      normalize_skill_name example_collaborators (name p)
        = normalize_skill_name example_collaborators ''keep me''"
    by (simp add: plugins example_normalize two_plugin_names canonicalize_keep_me)
  note by_raw = same_canonical_name_same_skill
      [where C = example_collaborators and a = "''keep me''" and w = two_plugin_world
         and settings = two_plugin_settings and ca = "''keep-me''",
        THEN conjunct2, THEN conjunct2, THEN conjunct2, THEN conjunct2, THEN conjunct2,
        THEN conjunct2, THEN conjunct1]
  from by_raw two_plugin_load raw valid present
  have upd: "update_skill example_collaborators ''keep me'' two_plugin_world
        = (case manager_update example_collaborators ''keep-me'' (disk two_plugin_world) of
             (Inl e, d) \<Rightarrow> (Inl (TyperExit 1), two_plugin_world\<lparr>disk := d\<rparr>)
           | (Inr updated_path, d) \<Rightarrow> (Inr (), two_plugin_world\<lparr>disk := d\<rparr>))"
    and rem: "remove_skill example_collaborators ''keep me'' True True two_plugin_world
        = (Inr (),
           saved (with_plugins two_plugin_settings
                    (filter (\<lambda>p. normalize_skill_name example_collaborators (name p)
                                  \<noteq> normalize_skill_name example_collaborators ''keep me'')
                       (plugins (skills two_plugin_settings)))) two_plugin_world)"
    by blast+
  have "manager_update example_collaborators ''keep-me'' (disk two_plugin_world)
          = (Inr ''/managed/keep-me'', disk two_plugin_world)"
    by (simp add: example_collaborators_def example_update_def two_plugin_world_def)
  with upd have updated: "update_skill example_collaborators ''keep me'' two_plugin_world
                            = (Inr (), two_plugin_world)"
    by simp
  have "filter (\<lambda>p. normalize_skill_name example_collaborators (name p)
                      \<noteq> normalize_skill_name example_collaborators ''keep me'')
          (plugins (skills two_plugin_settings)) = [example_plugin]"
    by (simp add: plugins example_normalize two_plugin_names canonicalize_keep_me)
  with rem have removed: "persisted_plugins
     (snd (remove_skill example_collaborators ''keep me'' True True two_plugin_world))
     = [example_plugin]"
    by (simp add: persisted_plugins_saved)
  note dup = same_canonical_name_same_skill
      [where norm = "canonicalize 64" and ps = "[kept_plugin, example_plugin]"
         and ea = kept_entry and url = "''https://host/keep.git''" and br = "''main''",
        THEN conjunct2, THEN conjunct2, THEN conjunct2, THEN conjunct2, THEN conjunct2,
        THEN conjunct2, THEN conjunct2]
  have unit: "canonicalize 64 (entry_name kept_entry) = Inr ''keep-me''"
    "name_canonical kept_entry = ''keep-me''"
    "entry_installed_path kept_entry = ''/managed/keep-me-2''"
    by (simp_all add: kept_entry_def canonicalize_def lower_char_def is_separator_def
          safe_char_def)
  have all_valid: "\<forall>p\<in>set [kept_plugin, example_plugin]. \<exists>n. canonicalize 64 (name p) = Inr n"
    by (simp add: two_plugin_names)
  have on_record: "\<exists>p\<in>set [kept_plugin, example_plugin].
      canonicalize 64 (name p) = canonicalize 64 (entry_name kept_entry)"
    by (simp add: two_plugin_names unit)
  have is_canonical: "canonicalize 64 (entry_name kept_entry) = Inr (name_canonical kept_entry)"
    by (simp add: unit)
  from dup all_valid is_canonical on_record
  obtain k where k: "k < length [kept_plugin, example_plugin]"
      "canonicalize 64 (name ([kept_plugin, example_plugin] ! k))
         = canonicalize 64 (entry_name kept_entry)"
      "record_entry (canonicalize 64) ''https://host/keep.git'' ''main'' kept_entry
           [kept_plugin, example_plugin]
         = Inr ([kept_plugin, example_plugin]
                  [k := ([kept_plugin, example_plugin] ! k)
                          \<lparr>git_url := ''https://host/keep.git'', branch := ''main'',
                           installed_path := entry_installed_path kept_entry,
                           enabled := True\<rparr>])"
    by blast
  have "k \<noteq> Suc 0"
  proof
    assume "k = Suc 0"
    with k(2) show False
      by (simp add: two_plugin_names unit)
  qed
  moreover from k(1) have "k = 0 \<or> k = Suc 0"
    by (cases k) simp_all
  ultimately have "k = 0"
    by simp
  with k(3) have recorded: "record_entry (canonicalize 64) ''https://host/keep.git'' ''main''
       kept_entry [kept_plugin, example_plugin]
     = Inr [kept_plugin\<lparr>git_url := ''https://host/keep.git'', branch := ''main'',
                         installed_path := ''/managed/keep-me-2'', enabled := True\<rparr>,
            example_plugin]"
    by (simp add: unit)
  from congruent example updated removed recorded show ?thesis
    by simp
qed

section \<open>update\_skill on a name that is not on record\<close>

text \<open>
  C6, as the code has it. When the settings document loads and the canonical form of the
  name is the canonical name of no plugin on record, \<open>update_skill\<close> leaves with
  \<^verbatim>\<open>typer.Exit(1)\<close> and the state, that is the settings files and the managed directories,
  is the one it started from: \<^verbatim>\<open>SkillManager.update\<close> is not called and nothing is saved.
  The exception is \<^verbatim>\<open>typer.Exit(1)\<close>, not \<open>SkillNotFoundError\<close>.
\<close>

theorem update_skill_missing:
  assumes "load_config (files w) get_config_path = Inr settings"
    and "normalize_skill_name C nm = Inr c"
    and "\<forall>p\<in>set (plugins (skills settings)). normalize_skill_name C (name p) \<noteq> Inr c"
  shows "update_skill C nm w = (Inl (TyperExit 1), w)"
proof -
  from assms(3)
  have "\<And>i. find_plugin (normalize_skill_name C) c (plugins (skills settings)) \<noteq> Inr (Some i)"
    by (rule find_plugin_no_match)
  with assms(1,2) show ?thesis
    by (auto simp: update_skill_def update_skill_body_def handle_errors_def
             split: sum.splits option.splits)
qed

theorem update_skill_missing_witness:
  "update_skill example_collaborators ''missing-skill'' example_world
     = (Inl (TyperExit 1), example_world)"
proof -
  have "normalize_skill_name example_collaborators ''missing-skill'' = Inr ''missing-skill''"
    by (simp add: example_collaborators_def canonicalize_missing_skill)
  moreover have "\<forall>p\<in>set (plugins (skills example_settings)).
      normalize_skill_name example_collaborators (name p) \<noteq> Inr ''missing-skill''"
    by (simp add: example_collaborators_def example_settings_def example_plugin_def
          canonicalize_my_skill)
  ultimately show ?thesis
    using update_skill_missing [OF example_load] by blast
qed

text \<open>
  C6 as written names \<open>SkillNotFoundError\<close>; on a name that is not on record the command
  raises something else.
\<close>

theorem update_skill_missing_counterexample:
  "fst (update_skill example_collaborators ''missing-skill'' example_world)
     \<noteq> Inl SkillNotFoundError"
  by (simp add: update_skill_def update_skill_body_def handle_errors_def example_load
        example_collaborators_def example_settings_def example_plugin_def
        canonicalize_missing_skill canonicalize_my_skill)

section \<open>The provider chosen without any configuration\<close>




section \<open>disable\_skill on a name that is no skill\<close>

text \<open>
  C8, at a name that is neither a plugin nor a bundled skill. In a world whose bundled
  directory holds no skill and whose settings disable nothing, \<open>disable_skill\<close> succeeds
  and saves the canonical form of the name in \<open>disabled_bundled\<close>: an entry is gained for
  a name that is not in the bundled set.
\<close>

theorem disable_skill_unknown_name:
  "scanned_bundled_skills example_collaborators (disk fresh_world) get_default_config = [] \<and>
   persisted_disabled_bundled fresh_world = [] \<and>
   disable_skill example_collaborators ''Ghost Skill'' fresh_world
     = (Inr (), saved (with_disabled_bundled get_default_config [''ghost-skill'']) fresh_world) \<and>
   persisted_disabled_bundled (snd (disable_skill example_collaborators ''Ghost Skill'' fresh_world))
     = [''ghost-skill'']"
proof -
  have "scanned_bundled_skills example_collaborators (disk fresh_world) get_default_config = []"
    by (simp add: scanned_bundled_skills_def bundled_path_of_def get_default_config_def
          example_collaborators_def fresh_world_def example_exists_def example_scan_def)
  moreover have "disable_skill example_collaborators ''Ghost Skill'' fresh_world
      = (Inr (), saved (with_disabled_bundled get_default_config [''ghost-skill'']) fresh_world)"
    by (simp add: disable_skill_def disable_skill_body_def handle_errors_def fresh_load
          example_normalize canonicalize_ghost_skill get_default_config_def)
  ultimately show ?thesis
    by (simp add: fresh_persisted persisted_disabled_saved)
qed

section \<open>remove\_skill with keep\_files\<close>

text \<open>
  C9, as the code has it. Let the settings load, let every plugin name on record be
  normalisable, and let the canonical form of the given name be the canonical name of a
  plugin on record. With \<^verbatim>\<open>keep_files=True\<close> and the user confirming, \<open>remove_skill\<close>
  saves the settings without the plugins of that canonical name, so that no plugin of
  that canonical name is on record afterwards; when the user declines, nothing changes.
  With \<^verbatim>\<open>keep_files=True\<close> the managed directories are the ones before in every case.
\<close>

theorem remove_skill_keep_files:
  assumes "load_config (files w) get_config_path = Inr settings"
    and "normalize_skill_name C nm = Inr c"
    and "\<forall>p\<in>set (plugins (skills settings)). \<exists>n. normalize_skill_name C (name p) = Inr n"
    and "c \<in> set (canonical_names (normalize_skill_name C) (plugins (skills settings)))"
  shows "remove_skill C nm True True w
           = (Inr (),
              saved (with_plugins settings
                       (filter (\<lambda>p. normalize_skill_name C (name p) \<noteq> Inr c)
                          (plugins (skills settings)))) w) \<and>
         c \<notin> set (canonical_names (normalize_skill_name C)
                    (persisted_plugins (snd (remove_skill C nm True True w)))) \<and>
         remove_skill C nm True False w = (Inr (), w) \<and>
         disk (snd (remove_skill C nm True confirm w)) = disk w"
proof -
  from find_plugin_present [OF assms(3,4)] obtain i
    where found: "find_plugin (normalize_skill_name C) c (plugins (skills settings)) = Inr (Some i)"
    by blast
  have confirmed: "remove_skill C nm True True w
           = (Inr (),
              saved (with_plugins settings
                       (filter (\<lambda>p. normalize_skill_name C (name p) \<noteq> Inr c)
                          (plugins (skills settings)))) w)"
    using assms(1,2) found drop_canonical_total [OF assms(3), of c]
    by (simp add: remove_skill_def remove_skill_body_def handle_errors_def)
  have declined: "remove_skill C nm True False w = (Inr (), w)"
    using assms(1,2) found
    by (simp add: remove_skill_def remove_skill_body_def handle_errors_def)
  have gone: "c \<notin> set (canonical_names (normalize_skill_name C)
                    (persisted_plugins (snd (remove_skill C nm True True w))))"
    by (simp add: confirmed persisted_plugins_saved canonical_names_filter)
  from confirmed gone declined remove_skill_keep_files_disk show ?thesis
    by blast
qed

theorem remove_skill_keep_files_witness:
  "remove_skill example_collaborators ''My_Skill'' True True example_world
     = (Inr (), saved (with_plugins example_settings []) example_world)"
proof -
  have canonical: "normalize_skill_name example_collaborators ''My_Skill'' = Inr ''my-skill''"
    by (simp add: example_normalize canonicalize_def lower_char_def is_separator_def
          safe_char_def)
  have valid: "\<forall>p\<in>set (plugins (skills example_settings)).
                 \<exists>n. normalize_skill_name example_collaborators (name p) = Inr n"
    by (simp add: example_normalize example_settings_def example_plugin_def
          canonicalize_my_skill)
  have present: "''my-skill'' \<in> set (canonical_names (normalize_skill_name example_collaborators)
                   (plugins (skills example_settings)))"
    by (simp add: example_normalize example_settings_def example_plugin_def
          canonicalize_my_skill)
  have "filter (\<lambda>p. normalize_skill_name example_collaborators (name p) \<noteq> Inr ''my-skill'')
          (plugins (skills example_settings)) = []"
    by (simp add: example_normalize example_settings_def example_plugin_def
          canonicalize_my_skill)
  with remove_skill_keep_files [OF example_load canonical valid present] show ?thesis
    by simp
qed

text \<open>
  C9 as written says that the entry is removed; with \<^verbatim>\<open>keep_files=True\<close> and the user
  declining, the plugin stays on record.
\<close>

theorem remove_skill_keep_files_counterexample:
  "persisted_plugins (snd (remove_skill example_collaborators ''My_Skill'' True False example_world))
     = [example_plugin]"
  by (simp add: remove_skill_def remove_skill_body_def handle_errors_def example_load
        example_normalize example_settings_def example_plugin_def canonicalize_my_skill
        example_persisted_plugins canonicalize_def lower_char_def is_separator_def safe_char_def)

section \<open>install\_skill records every unit as enabled\<close>

text \<open>
  C10. After a successful \<open>install_skill\<close>, \<open>entries\<close> being what the manager returned:
  every discovered unit has a plugin on record under its canonical name that is enabled
  and carries the given \<open>git_url\<close> and \<open>branch\<close>; an entry that was found on record for a
  unit keeps its position and name and is enabled afterwards, whatever \<open>enabled\<close> was
  before; and for a single discovered unit found on record the entry is the old one
  with \<open>git_url\<close>, \<open>branch\<close>, \<open>installed_path\<close> and \<open>enabled\<close> overwritten.
\<close>

theorem install_skill_records_enabled:
  assumes "install_skill C url skill_name br w = (Inr (), w')"
    and "manager_install C url skill_name br True (disk w) = (Inr entries, d)"
  shows "(\<forall>e\<in>set entries. \<exists>p\<in>set (persisted_plugins w').
            enabled p \<and> git_url p = url \<and> branch p = br \<and>
            (name p = name_canonical e \<or>
             normalize_skill_name C (name p) = Inr (name_canonical e))) \<and>
         (\<forall>e\<in>set entries. \<forall>i.
            find_plugin (normalize_skill_name C) (name_canonical e) (persisted_plugins w)
              = Inr (Some i) \<longrightarrow>
            i < length (persisted_plugins w') \<and>
            name (persisted_plugins w' ! i) = name (persisted_plugins w ! i) \<and>
            enabled (persisted_plugins w' ! i) \<and>
            git_url (persisted_plugins w' ! i) = url \<and>
            branch (persisted_plugins w' ! i) = br) \<and>
         (\<forall>e i. entries = [e] \<and>
            find_plugin (normalize_skill_name C) (name_canonical e) (persisted_plugins w)
              = Inr (Some i) \<longrightarrow>
            persisted_plugins w' ! i
              = (persisted_plugins w ! i)
                  \<lparr>git_url := url, branch := br,
                   installed_path := entry_installed_path e, enabled := True\<rparr>)"
proof -
  from assms obtain settings ps
    where load: "load_config (files w) get_config_path = Inr settings"
      and rec: "record_entries (normalize_skill_name C) url br entries (plugins (skills settings))
                  = Inr ps"
      and w': "w' = saved (with_plugins settings ps) (w\<lparr>disk := d\<rparr>)"
    by (rule install_skill_success)
  have before: "persisted_plugins w = plugins (skills settings)"
    by (simp add: persisted_plugins_def load)
  have after: "persisted_plugins w' = ps"
    by (simp add: w' persisted_plugins_saved)
  have recorded: "\<forall>e\<in>set entries. \<exists>p\<in>set ps.
            enabled p \<and> git_url p = url \<and> branch p = br \<and>
            (name p = name_canonical e \<or>
             normalize_skill_name C (name p) = Inr (name_canonical e))"
    using record_entries_records [OF rec] by blast
  have touched: "\<forall>e\<in>set entries. \<forall>i.
            find_plugin (normalize_skill_name C) (name_canonical e) (plugins (skills settings))
              = Inr (Some i) \<longrightarrow>
            i < length ps \<and> name (ps ! i) = name (plugins (skills settings) ! i) \<and>
            enabled (ps ! i) \<and> git_url (ps ! i) = url \<and> branch (ps ! i) = br"
    using record_entries_touch [OF rec] by blast
  have one: "ps ! i = (plugins (skills settings) ! i)
                  \<lparr>git_url := url, branch := br,
                   installed_path := entry_installed_path e, enabled := True\<rparr>"
    if "entries = [e]"
      and found: "find_plugin (normalize_skill_name C) (name_canonical e)
                    (plugins (skills settings)) = Inr (Some i)" for e i
    using rec that find_plugin_Some [OF found] by (auto simp: record_entry_found)
  show ?thesis
    unfolding before after using recorded touched one by blast
qed

theorem install_skill_records_enabled_witness:
  "\<not> enabled (persisted_plugins example_world ! 0) \<and>
   persisted_plugins
       (snd (install_skill example_collaborators ''https://host/repo.git'' None ''main''
               example_world)) ! 0
     = example_plugin\<lparr>git_url := ''https://host/repo.git'', branch := ''main'',
                      installed_path := ''/managed/my-skill'', enabled := True\<rparr>"
proof -
  let ?w' = "snd (install_skill example_collaborators ''https://host/repo.git'' None ''main''
                    example_world)"
  have run: "install_skill example_collaborators ''https://host/repo.git'' None ''main'' example_world
               = (Inr (), ?w')"
    by (simp add: example_install_result)
  have found: "find_plugin (normalize_skill_name example_collaborators)
                 (name_canonical example_entry) (persisted_plugins example_world) = Inr (Some 0)"
    by (simp add: example_normalize example_persisted_plugins example_entry_def
          example_plugin_def canonicalize_my_skill)
  note facts = install_skill_records_enabled [OF run example_manager_install]
  have "persisted_plugins ?w' ! 0
          = (persisted_plugins example_world ! 0)
              \<lparr>git_url := ''https://host/repo.git'', branch := ''main'',
               installed_path := entry_installed_path example_entry, enabled := True\<rparr>"
    using facts found by blast
  then have "persisted_plugins ?w' ! 0
          = example_plugin\<lparr>git_url := ''https://host/repo.git'', branch := ''main'',
                           installed_path := ''/managed/my-skill'', enabled := True\<rparr>"
    by (simp add: example_persisted_plugins example_entry_def)
  moreover have "\<not> enabled (persisted_plugins example_world ! 0)"
    by (simp add: example_persisted_plugins example_plugin_def)
  ultimately show ?thesis
    by simp
qed

end
